theory Spec2Isabelle
  imports Complex_Main "HOL-Library.Char_ord" "HOL-Library.List_Lexorder"
begin

section \<open>JavaScript strings and the regular expressions of the manifest parser\<close>

text \<open>
  A JavaScript string is modelled as a \<^typ>\<open>string\<close>: a list of code units, here the code
  units below 256 (ASCII and Latin-1). With \<open>Char_ord\<close> and \<open>List_Lexorder\<close> the order
  \<open>(\<le>)\<close> on \<^typ>\<open>string\<close> is the lexicographic order of the code units, that is the
  case-sensitive byte order.
\<close>

definition isDigit :: "char \<Rightarrow> bool" where
  \<comment> \<open>the class \<open>\d\<close> of a regular expression without the unicode flag\<close>
  "isDigit c = (c \<in> set ''0123456789'')"

definition isSpace :: "char \<Rightarrow> bool" where
  \<comment> \<open>white space and line terminators that \<open>String.prototype.trim\<close> removes, below 256:
      TAB, LF, VT, FF, CR, SPACE and NBSP\<close>
  "isSpace c = ((of_char c :: nat) \<in> {9, 10, 11, 12, 13, 32, 160})"

definition trim :: "string \<Rightarrow> string" where
  "trim s = rev (dropWhile isSpace (rev (dropWhile isSpace s)))"

fun splitOn :: "char \<Rightarrow> string \<Rightarrow> string list" where
  \<comment> \<open>\<open>s.split(d)\<close> for a separator of one code unit: never the empty list\<close>
  "splitOn d [] = [[]]"
| "splitOn d (c # cs) =
     (if c = d then [] # splitOn d cs
      else (case splitOn d cs of [] \<Rightarrow> [[c]] | h # t \<Rightarrow> (c # h) # t))"

definition startsWith :: "string \<Rightarrow> string \<Rightarrow> bool" where
  \<comment> \<open>\<open>s.startsWith(p)\<close>\<close>
  "startsWith s p = (take (length p) s = p)"

definition matchLit :: "string \<Rightarrow> string \<Rightarrow> string option" where
  \<comment> \<open>a literal of a regular expression, matched at the start of \<open>s\<close>: what follows it\<close>
  "matchLit p s = (if startsWith s p then Some (drop (length p) s) else None)"

fun searchFrom :: "(string \<Rightarrow> 'a option) \<Rightarrow> string \<Rightarrow> 'a option" where
  \<comment> \<open>\<open>s.match(re)\<close> for an unanchored expression: the leftmost position where it matches\<close>
  "searchFrom m [] = m []"
| "searchFrom m (c # cs) = (case m (c # cs) of Some r \<Rightarrow> Some r | None \<Rightarrow> searchFrom m cs)"

definition digitsAt :: "string \<Rightarrow> string option" where
  \<comment> \<open>\<open>\d+\<close>, greedy, at the start of \<open>s\<close>\<close>
  "digitsAt s = (let d = takeWhile isDigit s in if d = [] then None else Some d)"

definition bandwidthAt :: "string \<Rightarrow> string option" where
  \<comment> \<open>\<open>BANDWIDTH=(\d+)\<close> at the start of \<open>s\<close>: the captured group\<close>
  "bandwidthAt s = (case matchLit ''BANDWIDTH='' s of None \<Rightarrow> None | Some r \<Rightarrow> digitsAt r)"

definition resolutionAt :: "string \<Rightarrow> string option" where
  \<comment> \<open>\<open>RESOLUTION=(\d+x\d+)\<close> at the start of \<open>s\<close>: the captured group\<close>
  "resolutionAt s =
     (case matchLit ''RESOLUTION='' s of
        None \<Rightarrow> None
      | Some r \<Rightarrow>
          (case digitsAt r of
             None \<Rightarrow> None
           | Some w \<Rightarrow>
               (case matchLit ''x'' (dropWhile isDigit r) of
                  None \<Rightarrow> None
                | Some r' \<Rightarrow>
                    (case digitsAt r' of None \<Rightarrow> None | Some h \<Rightarrow> Some (w @ ''x'' @ h)))))"

definition untilChar :: "char \<Rightarrow> string \<Rightarrow> string option" where
  \<comment> \<open>\<open>([^d]+)d\<close> at the start of \<open>s\<close>: at least one code unit other than \<open>d\<close>, then
      \<open>d\<close>; the captured group\<close>
  "untilChar d s =
     (let v = takeWhile (\<lambda>c. c \<noteq> d) s
      in if v = [] \<or> dropWhile (\<lambda>c. c \<noteq> d) s = [] then None else Some v)"

definition quotedAt :: "string \<Rightarrow> string \<Rightarrow> string option" where
  \<comment> \<open>\<open>KEY="([^"]+)"\<close> at the start of \<open>s\<close>, with \<open>attr\<close> the text \<open>KEY="\<close>\<close>
  "quotedAt attr s = (case matchLit attr s of None \<Rightarrow> None | Some r \<Rightarrow> untilChar (CHR 0x22) r)"

definition nameAttr :: string where
  "nameAttr = ''NAME='' @ [CHR 0x22]"

definition videoAttr :: string where
  "videoAttr = ''VIDEO='' @ [CHR 0x22]"

definition layoutTokenAt :: "string \<Rightarrow> string option" where
  \<comment> \<open>\<open>Layout\d+\<close> at the start of \<open>s\<close>: the whole match\<close>
  "layoutTokenAt s =
     (case matchLit ''Layout'' s of
        None \<Rightarrow> None
      | Some r \<Rightarrow> (case digitsAt r of None \<Rightarrow> None | Some d \<Rightarrow> Some (''Layout'' @ d)))"

definition parseInt :: "string \<Rightarrow> nat" where
  \<comment> \<open>\<open>parseInt\<close> of a non-empty string of decimal digits (exact below \<open>2^53\<close>, where a
      JavaScript number holds every integer)\<close>
  "parseInt ds = foldl (\<lambda>n c. 10 * n + (of_char c - 48)) 0 ds"

fun lastIndexOf :: "char \<Rightarrow> string \<Rightarrow> int" where
  \<comment> \<open>\<open>s.lastIndexOf(c)\<close>: \<open>-1\<close> when \<open>c\<close> does not occur\<close>
  "lastIndexOf c [] = - 1"
| "lastIndexOf c (x # xs) =
     (let r = lastIndexOf c xs in if 0 \<le> r then r + 1 else if x = c then 0 else - 1)"

definition substring0 :: "string \<Rightarrow> int \<Rightarrow> string" where
  \<comment> \<open>\<open>s.substring(0, n)\<close>: a negative end counts as 0, an end beyond the string as its
      length\<close>
  "substring0 s n = take (nat n) s"

section \<open>The manifest parser of \<open>src/App.js\<close>\<close>

record stream =
  bandwidth :: nat
  resolution :: string
  streamInfoLine :: string
  streamUrlLine :: string

record quality =
  q_bandwidth :: nat
  q_resolution :: string

record layoutData =
  ld_name :: string
  ld_streams :: "stream list"
  bestQuality :: quality

record layout =
  l_name :: string
  displayName :: string
  masterUrl :: string
  l_streams :: "stream list"
  l_bandwidth :: nat
  l_resolution :: string

text \<open>
  The \<open>Map\<close> of the parser keeps its keys in insertion order: an association list with
  distinct keys, a new key going to the end.
\<close>

type_synonym layoutMap = "(string \<times> layoutData) list"

definition orElse :: "'a option \<Rightarrow> 'a option \<Rightarrow> 'a option" where
  \<comment> \<open>\<open>a || b\<close> on values that are a non-empty string when present\<close>
  "orElse a b = (case a of Some v \<Rightarrow> Some v | None \<Rightarrow> b)"

definition layoutNameOf :: "string \<Rightarrow> string \<Rightarrow> string option" where
  \<comment> \<open>lines 137-153: the NAME attribute, else the VIDEO attribute, else the first path
      segment of the URI line, else a \<open>Layout<N>\<close> token of the URI line\<close>
  "layoutNameOf line nextLine =
     orElse (searchFrom (quotedAt nameAttr) line)
       (orElse (searchFrom (quotedAt videoAttr) line)
          (orElse (untilChar CHR ''/'' nextLine) (searchFrom layoutTokenAt nextLine)))"

definition streamEntry :: "string \<Rightarrow> string \<Rightarrow> (string \<times> stream) option" where
  \<comment> \<open>lines 135-173: the entry of a stream-info line and its URI line, if it has a layout
      name, a bandwidth and a resolution\<close>
  "streamEntry line nextLine =
     (case (layoutNameOf line nextLine, searchFrom bandwidthAt line, searchFrom resolutionAt line) of
        (Some nm, Some bw, Some res) \<Rightarrow>
          Some (nm, \<lparr>bandwidth = parseInt bw, resolution = res,
                     streamInfoLine = line, streamUrlLine = nextLine\<rparr>)
      | _ \<Rightarrow> None)"

definition pushTo :: "layoutData \<Rightarrow> stream \<Rightarrow> layoutData" where
  \<comment> \<open>lines 167-178: the stream is appended, and is the best quality if its bandwidth is
      strictly greater\<close>
  "pushTo d st =
     d\<lparr>ld_streams := ld_streams d @ [st],
       bestQuality :=
         (if bandwidth st > q_bandwidth (bestQuality d)
          then \<lparr>q_bandwidth = bandwidth st, q_resolution = resolution st\<rparr>
          else bestQuality d)\<rparr>"

definition freshLayout :: "string \<Rightarrow> layoutData" where
  "freshLayout nm =
     \<lparr>ld_name = nm, ld_streams = [], bestQuality = \<lparr>q_bandwidth = 0, q_resolution = []\<rparr>\<rparr>"

fun addStream :: "string \<Rightarrow> stream \<Rightarrow> layoutMap \<Rightarrow> layoutMap" where
  \<comment> \<open>lines 159-178: \<open>has\<close>, \<open>set\<close> of a fresh record at the end, \<open>get\<close> and \<open>push\<close>\<close>
  "addStream nm st [] = [(nm, pushTo (freshLayout nm) st)]"
| "addStream nm st ((k, d) # m) =
     (if k = nm then (k, pushTo d st) # m else (k, d) # addStream nm st m)"

definition scanStep :: "string \<Rightarrow> string option \<Rightarrow> layoutMap \<Rightarrow> layoutMap" where
  \<comment> \<open>one turn of the loop of lines 126-181, on the trimmed line and the trimmed next
      line (\<open>None\<close> past the last line)\<close>
  "scanStep line nextLine m =
     (if startsWith line ''#EXT-X-STREAM-INF:'' then
        (case nextLine of
           None \<Rightarrow> m
         | Some n \<Rightarrow>
             if n = [] \<or> startsWith n ''#'' then m
             else (case streamEntry line n of None \<Rightarrow> m | Some (nm, st) \<Rightarrow> addStream nm st m))
      else m)"

definition nextOf :: "string list \<Rightarrow> string option" where
  \<comment> \<open>\<open>lines[i + 1]?.trim()\<close>, from the lines after line \<open>i\<close>: undefined past the last line\<close>
  "nextOf rest = (case rest of [] \<Rightarrow> None | n # _ \<Rightarrow> Some (trim n))"

fun scanLines :: "string list \<Rightarrow> layoutMap \<Rightarrow> layoutMap" where
  "scanLines [] m = m"
| "scanLines (l # rest) m =
     scanLines rest (scanStep (trim l) (nextOf rest) m)"

definition baseUrlOf :: "string \<Rightarrow> string" where
  \<comment> \<open>line 184\<close>
  "baseUrlOf manifestUrl = substring0 manifestUrl (lastIndexOf CHR ''/'' manifestUrl + 1)"

definition toLayout :: "string \<Rightarrow> layoutData \<Rightarrow> layout" where
  \<comment> \<open>lines 187-205\<close>
  "toLayout baseUrl d =
     \<lparr>l_name = ld_name d, displayName = ld_name d,
      masterUrl = baseUrl @ ld_name d @ ''/master.m3u8'',
      l_streams = ld_streams d,
      l_bandwidth = q_bandwidth (bestQuality d),
      l_resolution = q_resolution (bestQuality d)\<rparr>"

text \<open>
  \<open>a.name.localeCompare(b.name)\<close> compares the collation keys of the two names under the
  host's locale. The key function is a parameter \<open>key\<close> of the parser; sorting an array
  with such a comparator is the stable sort by the key.
\<close>

definition parseLayouts :: "(string \<Rightarrow> 'k::linorder) \<Rightarrow> string \<Rightarrow> string \<Rightarrow> layout list" where
  \<comment> \<open>lines 123-212: the layouts of a manifest text\<close>
  "parseLayouts key manifestUrl manifestText =
     sort_key (\<lambda>l. key (l_name l))
       (map (toLayout (baseUrlOf manifestUrl) \<circ> snd)
          (scanLines (splitOn CHR 0x0A manifestText) []))"


subsection \<open>Fetching, logging and the result\<close>

datatype textOutcome = TextFailed string | Text string

datatype fetchOutcome =
    Rejected string  \<comment> \<open>the promise of \<open>fetch\<close> rejects: a transport failure\<close>
  | Responded bool nat textOutcome  \<comment> \<open>\<open>response.ok\<close>, \<open>response.status\<close>, \<open>response.text()\<close>\<close>

datatype fetchError =
    FetchFailed string  \<comment> \<open>the rejection of \<open>fetch\<close> or of \<open>response.text()\<close>, thrown on\<close>
  | HttpError nat  \<comment> \<open>\<open>new Error(`HTTP error! status: ${response.status}`)\<close>\<close>

datatype parserLog =
    LogFetching
  | LogFetched
  | LogLayoutUrl string string
  | LogVariantCount nat
  | LogVariant string nat
  | LogParsed nat "string list"
  | LogParseError fetchError

definition layoutLogs :: "layout \<Rightarrow> parserLog list" where
  \<comment> \<open>lines 191-195\<close>
  "layoutLogs l =
     [LogLayoutUrl (l_name l) (masterUrl l), LogVariantCount (length (l_streams l))]
     @ map (\<lambda>st. LogVariant (resolution st) (bandwidth st)) (l_streams l)"

definition parseManifestForLayouts ::
  "(string \<Rightarrow> 'k::linorder) \<Rightarrow> string \<Rightarrow> fetchOutcome
     \<Rightarrow> parserLog list \<times> (fetchError + layout list)" where
  \<comment> \<open>\<open>src/App.js\<close>, lines 114-218: the messages logged, in order, and the layouts returned
      or the error thrown. The one \<open>fetch\<close> of the function has the outcome given.\<close>
  "parseManifestForLayouts key manifestUrl fetched =
     (case fetched of
        Rejected e \<Rightarrow> ([LogFetching, LogParseError (FetchFailed e)], Inl (FetchFailed e))
      | Responded ok status body \<Rightarrow>
          (case body of
             TextFailed e \<Rightarrow> ([LogFetching, LogParseError (FetchFailed e)], Inl (FetchFailed e))
           | Text manifestText \<Rightarrow>
               (let layoutsArray =
                      map (toLayout (baseUrlOf manifestUrl) \<circ> snd)
                        (scanLines (splitOn CHR 0x0A manifestText) []);
                    sortedArray = sort_key (\<lambda>l. key (l_name l)) layoutsArray
                in ([LogFetching, LogFetched] @ concat (map layoutLogs layoutsArray)
                      @ [LogParsed (length sortedArray) (map l_name sortedArray)],
                    Inr sortedArray))))"

section \<open>The manifest parser of the token-authenticated player (\<open>part_002\<close>)\<close>

record stream2 =
  bandwidth2 :: nat
  resolution2 :: string

record layout2 =
  name2 :: string
  displayName2 :: string
  masterUrl2 :: string

type_synonym layoutMap2 = "(string \<times> stream2 list) list"

definition pathSegment :: "string \<Rightarrow> string option" where
  \<comment> \<open>lines 61-64: \<open>pathParts[pathParts.length - 2]\<close> when the URI line has a \<open>/\<close>; an
      empty segment is no name\<close>
  "pathSegment nextLine =
     (let pathParts = splitOn CHR ''/'' nextLine
      in if length pathParts > 1 \<and> pathParts ! (length pathParts - 2) \<noteq> []
         then Some (pathParts ! (length pathParts - 2)) else None)"

definition layoutNameOf2 :: "string \<Rightarrow> string \<Rightarrow> string option" where
  \<comment> \<open>lines 56-65\<close>
  "layoutNameOf2 line nextLine =
     orElse (searchFrom (quotedAt nameAttr) line)
       (orElse (searchFrom (quotedAt videoAttr) line) (pathSegment nextLine))"

definition streamEntry2 :: "string \<Rightarrow> string \<Rightarrow> (string \<times> stream2) option" where
  \<comment> \<open>lines 54-74\<close>
  "streamEntry2 line nextLine =
     (case (layoutNameOf2 line nextLine, searchFrom bandwidthAt line, searchFrom resolutionAt line) of
        (Some nm, Some bw, Some res) \<Rightarrow> Some (nm, \<lparr>bandwidth2 = parseInt bw, resolution2 = res\<rparr>)
      | _ \<Rightarrow> None)"

fun addStream2 :: "string \<Rightarrow> stream2 \<Rightarrow> layoutMap2 \<Rightarrow> layoutMap2" where
  \<comment> \<open>lines 68-74\<close>
  "addStream2 nm st [] = [(nm, [st])]"
| "addStream2 nm st ((k, sts) # m) =
     (if k = nm then (k, sts @ [st]) # m else (k, sts) # addStream2 nm st m)"

definition scanStep2 :: "string \<Rightarrow> string option \<Rightarrow> layoutMap2 \<Rightarrow> layoutMap2" where
  \<comment> \<open>one turn of the loop of lines 48-77\<close>
  "scanStep2 line nextLine m =
     (if startsWith line ''#EXT-X-STREAM-INF:'' then
        (case nextLine of
           None \<Rightarrow> m
         | Some n \<Rightarrow>
             if n = [] \<or> startsWith n ''#'' then m
             else (case streamEntry2 line n of None \<Rightarrow> m | Some (nm, st) \<Rightarrow> addStream2 nm st m))
      else m)"

fun scanLines2 :: "string list \<Rightarrow> layoutMap2 \<Rightarrow> layoutMap2" where
  "scanLines2 [] m = m"
| "scanLines2 (l # rest) m =
     scanLines2 rest (scanStep2 (trim l) (nextOf rest) m)"

definition toLayout2 :: "string \<Rightarrow> string \<Rightarrow> layout2" where
  \<comment> \<open>lines 80-84\<close>
  "toLayout2 baseUrl nm =
     \<lparr>name2 = nm, displayName2 = nm, masterUrl2 = baseUrl @ nm @ ''/master.m3u8''\<rparr>"

definition parseLayouts2 :: "(string \<Rightarrow> 'k::linorder) \<Rightarrow> string \<Rightarrow> string \<Rightarrow> layout2 list" where
  \<comment> \<open>lines 45-88\<close>
  "parseLayouts2 key manifestUrl manifestText =
     sort_key (\<lambda>l. key (name2 l))
       (map (toLayout2 (baseUrlOf manifestUrl) \<circ> fst)
          (scanLines2 (splitOn CHR 0x0A manifestText) []))"

definition parseManifestForLayouts2 ::
  "(string \<Rightarrow> 'k::linorder) \<Rightarrow> string \<Rightarrow> fetchOutcome
     \<Rightarrow> parserLog list \<times> (fetchError + layout2 list)" where
  \<comment> \<open>\<open>part_002\<close>, lines 35-93\<close>
  "parseManifestForLayouts2 key manifestUrl fetched =
     (case fetched of
        Rejected e \<Rightarrow> ([LogFetching, LogParseError (FetchFailed e)], Inl (FetchFailed e))
      | Responded ok status body \<Rightarrow>
          if \<not> ok then ([LogFetching, LogParseError (HttpError status)], Inl (HttpError status))
          else
            (case body of
               TextFailed e \<Rightarrow> ([LogFetching, LogParseError (FetchFailed e)], Inl (FetchFailed e))
             | Text manifestText \<Rightarrow>
                 (let sortedArray = parseLayouts2 key manifestUrl manifestText
                  in ([LogFetching, LogFetched,
                       LogParsed (length sortedArray) (map name2 sortedArray)],
                      Inr sortedArray))))"

subsection \<open>A collation key\<close>

text \<open>
  The root collation of the Unicode collation algorithm, on names of ASCII letters and
  digits: digits sort before letters, letters alphabetically whatever their case, and
  of two names that differ in case only the one with the lower-case letter first sorts
  first. A key is the primary weights, a separator below every weight, and the case
  weights. Other code units are outside what this key describes; they are given the weight of
  their code, below the digits.
\<close>

definition primaryWeight :: "char \<Rightarrow> nat" where
  "primaryWeight c =
     (let n = (of_char c :: nat)
      in if 48 \<le> n \<and> n \<le> 57 then 1000 + (n - 48)
         else if 65 \<le> n \<and> n \<le> 90 then 2000 + (n - 65)
         else if 97 \<le> n \<and> n \<le> 122 then 2000 + (n - 97)
         else 1 + n)"

definition caseWeight :: "char \<Rightarrow> nat" where
  "caseWeight c = (let n = (of_char c :: nat) in if 65 \<le> n \<and> n \<le> 90 then 1 else 0)"

definition rootSortKey :: "string \<Rightarrow> nat list" where
  "rootSortKey s = map primaryWeight s @ [0] @ map caseWeight s"


subsection \<open>The pairs of a manifest as the parsers read them\<close>






definition truncateAfterLast :: "char \<Rightarrow> string \<Rightarrow> string" where
  \<comment> \<open>the text up to and with the last \<open>c\<close>; empty when there is none\<close>
  "truncateAfterLast c s = rev (dropWhile (\<lambda>x. x \<noteq> c) (rev s))"

subsection \<open>The attribute list of a stream-info line\<close>

text \<open>
  In the format of the manifest a stream-info line is the tag \<open>#EXT-X-STREAM-INF:\<close> and a
  list of attributes separated by commas; an attribute is a name, the sign \<open>=\<close> and a
  value, and a value in double quotes may hold commas. The definitions of this
  subsection read a line in this way. They are the attributes that the specification
  speaks of, and they owe nothing to the patterns of the parsers.
\<close>

fun splitAttributes :: "bool \<Rightarrow> string \<Rightarrow> string list" where
  \<comment> \<open>the attributes of a list: the pieces between the commas that are outside double
      quotes; the flag says that the text is inside quotes\<close>
  "splitAttributes q [] = [[]]"
| "splitAttributes q (c # cs) =
     (if c = CHR '','' \<and> \<not> q then [] # splitAttributes q cs
      else (case splitAttributes (if c = CHR 0x22 then \<not> q else q) cs of
              [] \<Rightarrow> [[c]]
            | h # t \<Rightarrow> (c # h) # t))"

definition attributesOf :: "string \<Rightarrow> (string \<times> string) list" where
  \<comment> \<open>the attributes of a stream-info line, each with its name and its value\<close>
  "attributesOf line =
     map (\<lambda>a. (takeWhile (\<lambda>c. c \<noteq> CHR ''='') a, drop 1 (dropWhile (\<lambda>c. c \<noteq> CHR ''='') a)))
       (splitAttributes False (drop (length ''#EXT-X-STREAM-INF:'') line))"

definition attributeValue :: "string \<Rightarrow> string \<Rightarrow> string option" where
  \<comment> \<open>the value of the first attribute of that name\<close>
  "attributeValue nm line = map_of (attributesOf line) nm"

definition decimalInteger :: "string \<Rightarrow> bool" where
  "decimalInteger v = (v \<noteq> [] \<and> list_all isDigit v)"

definition bandwidthAttribute :: "string \<Rightarrow> string option" where
  \<comment> \<open>the value of the attribute \<open>BANDWIDTH\<close>, a decimal integer\<close>
  "bandwidthAttribute line =
     (case attributeValue ''BANDWIDTH'' line of
        None \<Rightarrow> None
      | Some v \<Rightarrow> if decimalInteger v then Some v else None)"

definition resolutionAttribute :: "string \<Rightarrow> string option" where
  \<comment> \<open>the value of the attribute \<open>RESOLUTION\<close>: two decimal integers with an \<open>x\<close> between\<close>
  "resolutionAttribute line =
     (case attributeValue ''RESOLUTION'' line of
        None \<Rightarrow> None
      | Some v \<Rightarrow>
          if decimalInteger (takeWhile (\<lambda>c. c \<noteq> CHR ''x'') v)
             \<and> decimalInteger (drop 1 (dropWhile (\<lambda>c. c \<noteq> CHR ''x'') v))
          then Some v else None)"

definition quotedAttribute :: "string \<Rightarrow> string \<Rightarrow> string option" where
  \<comment> \<open>the text between the double quotes of the value of an attribute, when the value
      is a quoted string that is not empty\<close>
  "quotedAttribute nm line =
     (case attributeValue nm line of
        None \<Rightarrow> None
      | Some v \<Rightarrow>
          (case v of
             [] \<Rightarrow> None
           | q # r \<Rightarrow>
               if q = CHR 0x22 \<and> r \<noteq> [] \<and> last r = CHR 0x22 \<and> butlast r \<noteq> []
                  \<and> CHR 0x22 \<notin> set (butlast r)
               then Some (butlast r) else None))"



subsection \<open>Layout keys and well-formed pairs in the words of the specification\<close>

definition firstPathSegment :: "string \<Rightarrow> string option" where
  \<comment> \<open>the text of a URI line before its first \<open>/\<close>, when there is a \<open>/\<close> and that text is
      not empty\<close>
  "firstPathSegment u =
     (if CHR ''/'' \<in> set u \<and> takeWhile (\<lambda>c. c \<noteq> CHR ''/'') u \<noteq> []
      then Some (takeWhile (\<lambda>c. c \<noteq> CHR ''/'') u) else None)"

definition layoutToken :: "string \<Rightarrow> string option" where
  \<comment> \<open>the first place of a URI line where the text \<open>Layout\<close> is followed by a digit: that
      text with all the digits that follow it\<close>
  "layoutToken u =
     (case find (\<lambda>t. take 6 t = ''Layout'' \<and> takeWhile isDigit (drop 6 t) \<noteq> [])
             (map (\<lambda>i. drop i u) [0..<length u]) of
        None \<Rightarrow> None
      | Some t \<Rightarrow> Some (''Layout'' @ takeWhile isDigit (drop 6 t)))"


definition keyByNameVideoSegmentToken :: "string \<Rightarrow> string \<Rightarrow> string option" where
  \<comment> \<open>the layout key of a stream-info line and its URI line by the chain of the
      specification: the attribute \<open>NAME\<close>, else the attribute \<open>VIDEO\<close>, else the first
      path segment of the URI line, else a \<open>Layout<N>\<close> token of the URI line\<close>
  "keyByNameVideoSegmentToken line u =
     orElse (quotedAttribute ''NAME'' line)
       (orElse (quotedAttribute ''VIDEO'' line)
          (orElse (firstPathSegment u) (layoutToken u)))"


definition uriLineAfter :: "string list \<Rightarrow> string option" where
  \<comment> \<open>the line that comes next, trimmed, when it is a URI line: not empty and not a
      comment\<close>
  "uriLineAfter rest =
     (case rest of
        [] \<Rightarrow> None
      | n # _ \<Rightarrow> (let u = trim n in if u = [] \<or> hd u = CHR ''#'' then None else Some u))"

fun pairsOf ::
  "(string \<Rightarrow> string \<Rightarrow> string option) \<Rightarrow> string list \<Rightarrow> (string \<times> nat \<times> string) list" where
  \<comment> \<open>the well-formed pairs of the lines of a manifest, in order, for a chain of keys:
      a stream-info line with a bandwidth attribute and a resolution attribute, followed
      at once by a URI line, with a layout key; each pair with its key, its bandwidth
      and its resolution\<close>
  "pairsOf keyOf [] = []"
| "pairsOf keyOf (l # rest) =
     (if startsWith (trim l) ''#EXT-X-STREAM-INF:'' then
        (case uriLineAfter rest of
           None \<Rightarrow> []
         | Some u \<Rightarrow>
             (case (keyOf (trim l) u, bandwidthAttribute (trim l), resolutionAttribute (trim l)) of
                (Some k, Some bw, Some res) \<Rightarrow> [(k, parseInt bw, res)]
              | _ \<Rightarrow> []))
      else [])
     @ pairsOf keyOf rest"

subsection \<open>Example manifests\<close>

definition exampleUrl :: string where
  "exampleUrl = ''https://h/s/master.m3u8''"

definition mixedCaseManifest :: string where
  \<comment> \<open>two entries, named \<open>B\<close> and \<open>a\<close>\<close>
  "mixedCaseManifest =
     ''#EXT-X-STREAM-INF:BANDWIDTH=1,RESOLUTION=1x1,NAME='' @ [CHR 0x22] @ ''B'' @ [CHR 0x22, CHR 0x0A]
     @ ''B/v.m3u8'' @ [CHR 0x0A]
     @ ''#EXT-X-STREAM-INF:BANDWIDTH=2,RESOLUTION=2x2,NAME='' @ [CHR 0x22] @ ''a'' @ [CHR 0x22, CHR 0x0A]
     @ ''a/v.m3u8''"



definition averageLine :: string where
  \<comment> \<open>a stream-info line with no attribute \<open>BANDWIDTH\<close>\<close>
  "averageLine =
     ''#EXT-X-STREAM-INF:AVERAGE-BANDWIDTH=500,RESOLUTION=1x1,NAME='' @ [CHR 0x22] @ ''x'' @ [CHR 0x22]"

definition averageManifest :: string where
  "averageManifest = averageLine @ [CHR 0x0A] @ ''x/v.m3u8''"

definition averageFirstManifest :: string where
  \<comment> \<open>one entry, with an average bandwidth of 500 before its bandwidth of 800\<close>
  "averageFirstManifest =
     ''#EXT-X-STREAM-INF:AVERAGE-BANDWIDTH=500,BANDWIDTH=800,RESOLUTION=1x1,NAME=''
     @ [CHR 0x22] @ ''x'' @ [CHR 0x22, CHR 0x0A] @ ''x/v.m3u8''"

section \<open>The click handler: regions and hit testing (\<open>part_002\<close>, \<open>part_000\<close>)\<close>

text \<open>
  Coordinates, sizes and times are JavaScript numbers; they are modelled as rationals,
  with the cases written out where a division by zero gives the handler an infinite or
  undefined number.
\<close>

record region =
  r_x :: rat
  r_y :: rat
  r_width :: rat
  r_height :: rat
  source_type :: string
  source_idx :: int
  parent_layout_name :: "string option"

record layoutRegions =
  layout_name :: string
  canvas_width :: rat
  canvas_height :: rat
  lr_regions :: "region list"

datatype playerLog =
    FromParser parserLog
  | LogClickedRegion string int
  | LogSwitchingTo string
  | LogLayoutNotFound string

datatype jsError = TypeError

record session2 =
  layouts :: "layout2 list"
  selectedLayout :: string
  isLoading2 :: bool
  isSwitching2 :: bool
  error2 :: "string option"
  isPlayerReady2 :: bool
  playerLogs2 :: "playerLog list"
  abrEnabled2 :: bool
  regions :: "region list"
  allLayoutRegions :: "layoutRegions list"
  canvasWidth :: rat
  canvasHeight :: rat
  currentLayoutRef :: "string option"

record session0 = session2 +
  clickedRegion :: "region option"

record click =
  \<comment> \<open>what the handler reads from the event and the document\<close>
  videoPresent :: bool  \<comment> \<open>\<open>videoRef.current\<close>\<close>
  containerPresent :: bool  \<comment> \<open>\<open>videoContainerRef.current\<close>\<close>
  rectLeft :: rat
  rectTop :: rat
  rectWidth :: rat  \<comment> \<open>not negative\<close>
  rectHeight :: rat  \<comment> \<open>not negative\<close>
  videoWidth :: nat
  videoHeight :: nat
  clientX :: rat
  clientY :: rat

definition addLog2 :: "playerLog \<Rightarrow> 'a session2_scheme \<Rightarrow> 'a session2_scheme" where
  \<comment> \<open>\<open>part_002\<close>, lines 125-128: the newest message first, a hundred kept\<close>
  "addLog2 msg s = s\<lparr>playerLogs2 := msg # take 99 (playerLogs2 s)\<rparr>"

definition toLowerChar :: "char \<Rightarrow> char" where
  \<comment> \<open>the lower case of a code unit below 256: the letters \<open>A\<close> to \<open>Z\<close> and the
      capital letters of Latin-1 (\<open>0xC0\<close> to \<open>0xDE\<close> but the sign \<open>0xD7\<close>) move up by 32,
      which sets bit 5\<close>
  "toLowerChar c =
     (let n = (of_char c :: nat)
      in if (65 \<le> n \<and> n \<le> 90) \<or> (192 \<le> n \<and> n \<le> 222 \<and> n \<noteq> 215)
         then (case c of Char b0 b1 b2 b3 b4 b5 b6 b7 \<Rightarrow> Char b0 b1 b2 b3 b4 True b6 b7)
         else c)"

definition toLowerCase :: "string \<Rightarrow> string" where
  "toLowerCase s = map toLowerChar s"

definition displayBox :: "rat \<Rightarrow> rat \<Rightarrow> rat \<Rightarrow> rat \<times> rat \<times> rat \<times> rat" where
  \<comment> \<open>lines 313-326: the width and height of the picture in the container, and its
      offsets, for a video aspect ratio and a container that are positive\<close>
  "displayBox videoAspectRatio w h =
     (if w / h > videoAspectRatio
      then (h * videoAspectRatio, h, (w - h * videoAspectRatio) / 2, 0)
      else (w, w / videoAspectRatio, 0, (h - w / videoAspectRatio) / 2))"

definition canvasPoint :: "rat \<Rightarrow> click \<Rightarrow> rat \<Rightarrow> rat \<Rightarrow> rat \<times> rat" where
  \<comment> \<open>lines 328-332\<close>
  "canvasPoint videoAspectRatio e cw ch =
     (case displayBox videoAspectRatio (rectWidth e) (rectHeight e) of
        (videoDisplayWidth, videoDisplayHeight, offsetX, offsetY) \<Rightarrow>
          (((clientX e - rectLeft e - offsetX) / videoDisplayWidth) * cw,
           ((clientY e - rectTop e - offsetY) / videoDisplayHeight) * ch))"

definition mapToCanvas2 :: "click \<Rightarrow> rat \<Rightarrow> rat \<Rightarrow> (rat \<times> rat) option" where
  \<comment> \<open>\<open>part_002\<close>, lines 312-332, after the check that the video has a width and a
      height. A container of width or height 0 makes the picture 0 by 0 and the canvas
      point infinite or undefined: \<open>None\<close>, a point that no region contains.\<close>
  "mapToCanvas2 e cw ch =
     (if rectWidth e = 0 \<or> rectHeight e = 0 then None
      else Some (canvasPoint (of_nat (videoWidth e) / of_nat (videoHeight e)) e cw ch))"

definition mapToCanvas0 :: "click \<Rightarrow> rat \<Rightarrow> rat \<Rightarrow> (rat \<times> rat) option" where
  \<comment> \<open>\<open>part_000\<close>, lines 513-533: the aspect ratio is 16/9 when the video has no width
      (the ratio is 0 or undefined), and infinite when it has a width and no height, which
      makes the canvas point infinite or undefined\<close>
  "mapToCanvas0 e cw ch =
     (if videoWidth e \<noteq> 0 \<and> videoHeight e = 0 then None
      else if rectWidth e = 0 \<or> rectHeight e = 0 then None
      else Some (canvasPoint
                   (if videoWidth e = 0 then 16 / 9
                    else of_nat (videoWidth e) / of_nat (videoHeight e)) e cw ch))"

definition inRegion :: "(rat \<times> rat) option \<Rightarrow> region \<Rightarrow> bool" where
  \<comment> \<open>lines 346-347: the borders belong to the region\<close>
  "inRegion p r =
     (case p of
        None \<Rightarrow> False
      | Some (canvasClickX, canvasClickY) \<Rightarrow>
          canvasClickX \<ge> r_x r \<and> canvasClickX \<le> r_x r + r_width r \<and>
          canvasClickY \<ge> r_y r \<and> canvasClickY \<le> r_y r + r_height r)"

definition area :: "region \<Rightarrow> rat" where
  \<comment> \<open>lines 338-339: \<open>(r.width || 0) * (r.height || 0)\<close>, on numbers\<close>
  "area r = r_width r * r_height r"

text \<open>
  The regions are objects, compared by identity: a region is taken with its index in
  the array.
\<close>

definition largestRegion :: "region list \<Rightarrow> (nat \<times> region) option" where
  \<comment> \<open>lines 336-341: the \<open>reduce\<close> from \<open>null\<close>; of regions of the same area the first
      stays\<close>
  "largestRegion rs =
     foldl (\<lambda>largest current.
              case largest of
                None \<Rightarrow> Some current
              | Some l \<Rightarrow> if area (snd current) > area (snd l) then Some current else Some l)
       None (enumerate 0 rs)"

definition clickableRegions :: "region list \<Rightarrow> (nat \<times> region) list" where
  \<comment> \<open>line 343\<close>
  "clickableRegions rs = filter (\<lambda>r. Some r \<noteq> largestRegion rs) (enumerate 0 rs)"

definition findLayout :: "string \<Rightarrow> layout2 list \<Rightarrow> layout2 option" where
  \<comment> \<open>line 354\<close>
  "findLayout nm ls = find (\<lambda>l. toLowerCase (name2 l) = toLowerCase nm) ls"

definition handleVideoClick2 :: "click \<Rightarrow> session2 \<Rightarrow> session2 \<times> jsError option" where
  \<comment> \<open>\<open>part_002\<close>, lines 305-363: the state after the click, and the exception if the
      handler throws\<close>
  "handleVideoClick2 e s =
     (if length (layouts s) \<le> 1 \<or> \<not> videoPresent e \<or> \<not> containerPresent e then (s, None)
      else if videoWidth e = 0 \<or> videoHeight e = 0 then (s, None)
      else if regions s = [] then (s, None)
      else
        (case find (\<lambda>r. inRegion (mapToCanvas2 e (canvasWidth s) (canvasHeight s)) (snd r))
                (clickableRegions (regions s)) of
           None \<Rightarrow> (s, None)
         | Some (i, hitRegion) \<Rightarrow>
             (let s1 = addLog2 (LogClickedRegion (source_type hitRegion) (source_idx hitRegion)) s
              in case parent_layout_name hitRegion of
                   None \<Rightarrow> (s1, Some TypeError)
                 | Some nextLayoutNameFromApi \<Rightarrow>
                     (case findLayout nextLayoutNameFromApi (layouts s) of
                        Some nextLayout \<Rightarrow>
                          if name2 nextLayout \<noteq> selectedLayout s
                          then ((addLog2 (LogSwitchingTo (name2 nextLayout)) s1)
                                  \<lparr>selectedLayout := name2 nextLayout\<rparr>, None)
                          else (s1, None)
                      | None \<Rightarrow> (addLog2 (LogLayoutNotFound nextLayoutNameFromApi) s1, None)))))"

definition layoutAt :: "layout2 list \<Rightarrow> int \<Rightarrow> layout2 option" where
  \<comment> \<open>\<open>layouts[i]\<close>: undefined outside the array\<close>
  "layoutAt ls i = (if 0 \<le> i \<and> nat i < length ls then Some (ls ! nat i) else None)"

definition findIndexOf :: "string \<Rightarrow> layout2 list \<Rightarrow> int" where
  \<comment> \<open>\<open>layouts.findIndex(l => l.name === selectedLayout)\<close>: \<open>-1\<close> when there is none\<close>
  "findIndexOf nm ls =
     (case find (\<lambda>i. name2 (ls ! i) = nm) [0..<length ls] of None \<Rightarrow> - 1 | Some i \<Rightarrow> int i)"

definition handleVideoClick0 ::
  "click \<Rightarrow> session0 \<Rightarrow> string list \<times> session0 \<times> jsError option" where
  \<comment> \<open>\<open>part_000\<close>, lines 503-559: what is written to the console, the state after the
      click, and the exception if the handler throws. The two references are set.\<close>
  "handleVideoClick0 e s =
     (if length (layouts s) \<le> 1 then ([''jejnqejne''], s, None)
      else
        (case find (inRegion (mapToCanvas0 e (canvasWidth s) (canvasHeight s))) (regions s) of
           Some hitRegion \<Rightarrow>
             (case layoutAt (layouts s) (source_idx hitRegion) of
                None \<Rightarrow> ([''jejnqejne''], s\<lparr>clickedRegion := Some hitRegion\<rparr>, Some TypeError)
              | Some targetLayout \<Rightarrow>
                  ([''jejnqejne'', ''hitRegion''],
                   s\<lparr>clickedRegion := Some hitRegion,
                     selectedLayout :=
                       (if name2 targetLayout \<noteq> selectedLayout s \<and> name2 targetLayout \<noteq> []
                        then name2 targetLayout
                        else name2 (layouts s !
                               nat ((findIndexOf (selectedLayout s) (layouts s) + 1)
                                    mod int (length (layouts s)))))\<rparr>,
                   None))
         | None \<Rightarrow>
             ([''jejnqejne''],
              s\<lparr>selectedLayout :=
                   name2 (layouts s !
                     nat ((findIndexOf (selectedLayout s) (layouts s) + 1)
                          mod int (length (layouts s))))\<rparr>,
              None)))"

subsection \<open>Example sessions\<close>

definition wideRegion :: region where
  "wideRegion = \<lparr>r_x = 0, r_y = 0, r_width = 960, r_height = 1080,
     source_type = ''camera'', source_idx = 1, parent_layout_name = Some ''wide''\<rparr>"

definition backgroundRegion :: region where
  "backgroundRegion = \<lparr>r_x = 0, r_y = 0, r_width = 1920, r_height = 1080,
     source_type = ''screen'', source_idx = 0, parent_layout_name = Some ''main''\<rparr>"

definition exampleSession :: "region list \<Rightarrow> session2" where
  \<comment> \<open>the layouts \<open>main\<close> and \<open>Wide\<close>, \<open>main\<close> selected, on a canvas of 1920 by 1080\<close>
  "exampleSession rs =
     \<lparr>layouts = [toLayout2 ''https://h/s/'' ''main'', toLayout2 ''https://h/s/'' ''Wide''],
      selectedLayout = ''main'', isLoading2 = False, isSwitching2 = False, error2 = None,
      isPlayerReady2 = True, playerLogs2 = [], abrEnabled2 = True, regions = rs,
      allLayoutRegions = [], canvasWidth = 1920, canvasHeight = 1080,
      currentLayoutRef = Some ''main''\<rparr>"

definition exampleClick :: click where
  \<comment> \<open>a container of 960 by 540 at (10, 20), a video of 1280 by 720, a click at (60, 70):
      the canvas point (100, 100)\<close>
  "exampleClick =
     \<lparr>videoPresent = True, containerPresent = True, rectLeft = 10, rectTop = 20,
      rectWidth = 960, rectHeight = 540, videoWidth = 1280, videoHeight = 720,
      clientX = 60, clientY = 70\<rparr>"

definition letterboxClick :: click where
  \<comment> \<open>a container of 960 by 720 at (10, 20) and a video of 1280 by 720: the picture is
      960 by 540, with bars of 90 above and below; a click at (60, 160), which is 50 to
      the right and 50 below the corner of the picture: the canvas point (100, 100)\<close>
  "letterboxClick =
     \<lparr>videoPresent = True, containerPresent = True, rectLeft = 10, rectTop = 20,
      rectWidth = 960, rectHeight = 720, videoWidth = 1280, videoHeight = 720,
      clientX = 60, clientY = 160\<rparr>"

definition barClick :: click where
  \<comment> \<open>the same container and video, and a click at (60, 70), in the bar above the
      picture: the canvas point (100, -80)\<close>
  "barClick = letterboxClick\<lparr>clientY := 70\<rparr>"

definition singleLayoutSession :: session2 where
  "singleLayoutSession =
     (exampleSession [backgroundRegion, wideRegion])\<lparr>layouts := [toLayout2 ''https://h/s/'' ''main'']\<rparr>"

definition singleLayoutSession0 :: session0 where
  "singleLayoutSession0 =
     \<lparr>layouts = [toLayout2 ''https://h/s/'' ''main''],
      selectedLayout = ''main'', isLoading2 = False, isSwitching2 = False, error2 = None,
      isPlayerReady2 = True, playerLogs2 = [], abrEnabled2 = True,
      regions = [backgroundRegion, wideRegion],
      allLayoutRegions = [], canvasWidth = 1920, canvasHeight = 1080,
      currentLayoutRef = Some ''main'', clickedRegion = None\<rparr>"

subsection \<open>The hit test in the words of the specification\<close>

definition isFirstLargest :: "region list \<Rightarrow> nat \<Rightarrow> bool" where
  \<comment> \<open>region \<open>k\<close> has the largest area, width times height, and is the first that has it\<close>
  "isFirstLargest rs k =
     (k < length rs
      \<and> list_all (\<lambda>r. r_width r * r_height r \<le> r_width (rs ! k) * r_height (rs ! k)) rs
      \<and> list_all (\<lambda>r. r_width r * r_height r < r_width (rs ! k) * r_height (rs ! k)) (take k rs))"

definition boxContains :: "rat \<times> rat \<Rightarrow> region \<Rightarrow> bool" where
  \<comment> \<open>the point is in the box of the region, its four borders counted in\<close>
  "boxContains p r =
     (r_x r \<le> fst p \<and> fst p \<le> r_x r + r_width r \<and> r_y r \<le> snd p \<and> snd p \<le> r_y r + r_height r)"

definition firstHit :: "rat \<times> rat \<Rightarrow> nat \<Rightarrow> region list \<Rightarrow> nat option" where
  \<comment> \<open>the index of the first region in stored order, region \<open>k\<close> left out, whose box
      contains the point\<close>
  "firstHit p k rs = find (\<lambda>j. j \<noteq> k \<and> boxContains p (rs ! j)) [0..<length rs]"

section \<open>The stall watchdog (\<open>part_003\<close>)\<close>

record watchdog =
  stallCountRef :: nat
  lastTimeUpdateRef :: rat
  playbackStalled :: bool
  lastPlaybackTime :: rat
  stallCheckIntervalRef :: "nat option"

record sample =
  \<comment> \<open>what one run of the interval callback reads from the video and the player\<close>
  refsPresent :: bool  \<comment> \<open>\<open>videoRef.current\<close> and \<open>playerRef.current\<close> are set\<close>
  paused :: bool
  currentTime :: rat
  isLive :: bool
  seekRangeEnd :: rat

datatype timerCallback = ClearStalled | StallCheck

datatype watchdogEffect =
    LogStallDetected rat
  | LogSeekLiveEdge rat
  | LogSeekForward
  | SeekTo rat  \<comment> \<open>\<open>video.currentTime = ...\<close>\<close>
  | SetTimeout nat timerCallback  \<comment> \<open>delay in milliseconds\<close>
  | SetInterval nat nat timerCallback  \<comment> \<open>handle, period in milliseconds\<close>
  | ClearInterval nat

definition recovery :: "sample \<Rightarrow> watchdogEffect list" where
  \<comment> \<open>lines 108-120\<close>
  "recovery v =
     (if isLive v then
        (if seekRangeEnd v > currentTime v + 10
         then [LogSeekLiveEdge (seekRangeEnd v - 2), SeekTo (seekRangeEnd v - 2)]
         else [])
      else [LogSeekForward, SeekTo (currentTime v + 1 / 10)])"

definition stallCheck :: "sample \<Rightarrow> watchdog \<Rightarrow> watchdog \<times> watchdogEffect list" where
  \<comment> \<open>lines 94-132: one run of the interval callback\<close>
  "stallCheck v w =
     (if \<not> refsPresent v then (w, [])
      else if \<not> paused v \<and> currentTime v = lastTimeUpdateRef w then
        (if stallCountRef w + 1 \<ge> 3 then
           (w\<lparr>stallCountRef := 0, playbackStalled := True,
              lastTimeUpdateRef := currentTime v, lastPlaybackTime := currentTime v\<rparr>,
            [LogStallDetected (currentTime v)] @ recovery v @ [SetTimeout 3000 ClearStalled])
         else
           (w\<lparr>stallCountRef := stallCountRef w + 1,
              lastTimeUpdateRef := currentTime v, lastPlaybackTime := currentTime v\<rparr>, []))
      else
        (w\<lparr>stallCountRef := 0, playbackStalled := False,
           lastTimeUpdateRef := currentTime v, lastPlaybackTime := currentTime v\<rparr>, []))"

definition setupStallDetection :: "nat \<Rightarrow> watchdog \<Rightarrow> watchdog \<times> watchdogEffect list" where
  \<comment> \<open>lines 89-133: an interval that is running is cleared, and the callback is set to
      run every 1000 milliseconds; \<open>h\<close> is the handle that \<open>setInterval\<close> returns\<close>
  "setupStallDetection h w =
     (w\<lparr>stallCheckIntervalRef := Some h\<rparr>,
      (case stallCheckIntervalRef w of None \<Rightarrow> [] | Some old \<Rightarrow> [ClearInterval old])
      @ [SetInterval h 1000 StallCheck])"

definition onBuffering :: "bool \<Rightarrow> watchdog \<Rightarrow> watchdog" where
  \<comment> \<open>lines 265-270: the listener of the player's \<open>buffering\<close> event\<close>
  "onBuffering buffering w = (if buffering then w\<lparr>stallCountRef := 0\<rparr> else w)"

definition onStreaming :: "watchdog \<Rightarrow> watchdog" where
  \<comment> \<open>lines 260-263\<close>
  "onStreaming w = w\<lparr>stallCountRef := 0\<rparr>"

definition onTimeout :: "timerCallback \<Rightarrow> watchdog \<Rightarrow> watchdog" where
  \<comment> \<open>line 123: the callback of the timer set at a stall\<close>
  "onTimeout cb w = (case cb of ClearStalled \<Rightarrow> w\<lparr>playbackStalled := False\<rparr> | StallCheck \<Rightarrow> w)"

fun stallChecks :: "sample list \<Rightarrow> watchdog \<Rightarrow> watchdog \<times> watchdogEffect list" where
  \<comment> \<open>the callback run on successive samples: the last state and all effects\<close>
  "stallChecks [] w = (w, [])"
| "stallChecks (v # vs) w =
     (case stallCheck v w of (w1, es) \<Rightarrow> (case stallChecks vs w1 of (w2, es') \<Rightarrow> (w2, es @ es')))"

definition seeks :: "watchdogEffect list \<Rightarrow> rat list" where
  \<comment> \<open>the recovery actions among the effects\<close>
  "seeks es = concat (map (\<lambda>e. case e of SeekTo t \<Rightarrow> [t] | _ \<Rightarrow> []) es)"

subsection \<open>Example samples\<close>

definition idleWatchdog :: watchdog where
  "idleWatchdog = \<lparr>stallCountRef = 0, lastTimeUpdateRef = 50, playbackStalled = False,
     lastPlaybackTime = 50, stallCheckIntervalRef = Some 1\<rparr>"

definition stuckLive :: "rat \<Rightarrow> sample" where
  \<comment> \<open>a live stream stuck at second 50, the seek range ending at \<open>e\<close>\<close>
  "stuckLive e = \<lparr>refsPresent = True, paused = False, currentTime = 50, isLive = True,
     seekRangeEnd = e\<rparr>"

definition stuckVod :: sample where
  "stuckVod = \<lparr>refsPresent = True, paused = False, currentTime = 50, isLive = False,
     seekRangeEnd = 600\<rparr>"

definition movingVod :: sample where
  \<comment> \<open>the same content, one second on\<close>
  "movingVod = \<lparr>refsPresent = True, paused = False, currentTime = 51, isLive = False,
     seekRangeEnd = 600\<rparr>"

section \<open>The program selector with a manifest version (\<open>part_001\<close>)\<close>

text \<open>
  The component is a state and callbacks that run one at a time: an event handler, then
  the effects whose dependencies the handler changed. A callback takes the state and
  returns the state; the calls made to the player are appended to \<open>engineCalls\<close>, and the
  pending timers are in \<open>timers\<close>, each with its handle and the time, in milliseconds,
  at which it is due. Timer handles are positive, as in a browser. The manifest version is
  a JavaScript number that counts from 0 by steps of 1: a natural number (a number holds
  every integer below \<open>2^53\<close>).
\<close>

record track =
  t_id :: nat
  t_active :: bool
  t_programName :: string  \<comment> \<open>the value of lines 183-187 for the variant\<close>
  t_activeProgramName :: string  \<comment> \<open>the value of lines 209-211 for the variant\<close>
  t_bandwidth :: nat

record program =
  p_label :: string
  variantId :: nat
  p_bandwidth :: nat
  manifestVersion :: nat

record engineView =
  \<comment> \<open>what a callback reads from the player while it runs\<close>
  variantTracks :: "track list"  \<comment> \<open>\<open>getVariantTracks()\<close>\<close>
  mediaElement :: bool  \<comment> \<open>\<open>getMediaElement()\<close> is not null\<close>
  selectThrows :: "string option"  \<comment> \<open>the message, if \<open>selectVariantTrack\<close> throws\<close>

datatype engineCall = Load string | ConfigureAbr bool | SelectVariantTrack nat bool

datatype uiError =
    ErrVariantNotFound
  | ErrSwitching string
  | ErrPlayer string nat
  | ErrLoading string
  | ErrNoPrograms
  | ErrEmptyUrl

datatype log1 =
    LogAttemptLoad string
  | LogLoadCancelled
  | LogManifestLoaded
  | LogFoundTracks nat
  | LogProgramName string
  | LogPopulated nat
  | LogInitialProgram string
  | LogNoPrograms
  | LogLoadError string
  | LogSwitchInProgress string
  | LogNoProgramData string
  | LogOutdated
  | LogAlreadyActive string
  | LogVariantMissing nat "nat list"
  | LogSwitching string nat
  | LogPlayerState
  | LogDisablingAbr
  | LogSelectCalled string nat
  | LogSwitchTimeout
  | LogSelectError string
  | LogUserTried string bool bool
  | LogUserSelected string
  | LogEmptyUrl
  | LogVariantChanged nat string
  | LogReenableAbr
  | LogPlayerError nat string

record session1 =
  manifestUrlToLoad :: string
  programs :: "program list"
  selectedProgramLabel :: string
  isLoading :: bool
  isSwitching :: bool
  uiError :: "uiError option"
  isPlayerReady :: bool
  playerLogs :: "log1 list"
  abrEnabled :: bool
  hasPlayer :: bool  \<comment> \<open>\<open>playerRef.current\<close> is set\<close>
  switchTimeoutRef :: "nat option"
  manifestVersionRef :: nat
  clock :: nat
  timers :: "(nat \<times> nat) list"  \<comment> \<open>handle and due time of the pending switch timeouts\<close>
  nextTimer :: nat
  engineCalls :: "engineCall list"

definition addLog1 :: "log1 \<Rightarrow> session1 \<Rightarrow> session1" where
  \<comment> \<open>lines 27-33: the newest message first, twenty kept\<close>
  "addLog1 msg s = s\<lparr>playerLogs := msg # take 19 (playerLogs s)\<rparr>"

definition callEngine :: "engineCall \<Rightarrow> session1 \<Rightarrow> session1" where
  "callEngine c s = s\<lparr>engineCalls := engineCalls s @ [c]\<rparr>"

definition clearSwitchTimeout :: "session1 \<Rightarrow> session1" where
  \<comment> \<open>lines 36-41\<close>
  "clearSwitchTimeout s =
     (case switchTimeoutRef s of
        None \<Rightarrow> s
      | Some h \<Rightarrow> s\<lparr>timers := filter (\<lambda>t. fst t \<noteq> h) (timers s), switchTimeoutRef := None\<rparr>)"

definition setSwitchTimeout :: "session1 \<Rightarrow> session1" where
  \<comment> \<open>lines 301-305: \<open>switchTimeoutRef.current = setTimeout(..., 5000)\<close>\<close>
  "setSwitchTimeout s =
     s\<lparr>timers := timers s @ [(nextTimer s, clock s + 5000)],
       switchTimeoutRef := Some (nextTimer s), nextTimer := nextTimer s + 1\<rparr>"

definition onSwitchTimeout :: "session1 \<Rightarrow> session1" where
  \<comment> \<open>lines 301-305: the callback of the timer\<close>
  "onSwitchTimeout s = (addLog1 LogSwitchTimeout s)\<lparr>isSwitching := False, switchTimeoutRef := None\<rparr>"

definition switchEffect :: "engineView \<Rightarrow> session1 \<Rightarrow> session1" where
  \<comment> \<open>lines 239-313: the effect that switches the variant track\<close>
  "switchEffect v s =
     (if selectedProgramLabel s = [] \<or> \<not> hasPlayer s \<or> programs s = [] \<or> \<not> isPlayerReady s then s
      else if isSwitching s then addLog1 (LogSwitchInProgress (selectedProgramLabel s)) s
      else
        (case find (\<lambda>p. p_label p = selectedProgramLabel s) (programs s) of
           None \<Rightarrow> addLog1 (LogNoProgramData (selectedProgramLabel s)) s
         | Some programData \<Rightarrow>
             if variantId programData = 0 then addLog1 (LogNoProgramData (selectedProgramLabel s)) s
             else if manifestVersion programData \<noteq> manifestVersionRef s then addLog1 LogOutdated s
             else if (case find t_active (variantTracks v) of
                        None \<Rightarrow> False
                      | Some activeVariant \<Rightarrow> t_id activeVariant = variantId programData)
               then addLog1 (LogAlreadyActive (selectedProgramLabel s)) s
             else
               (case find (\<lambda>t. t_id t = variantId programData) (variantTracks v) of
                  None \<Rightarrow>
                    (addLog1 (LogVariantMissing (variantId programData) (map t_id (variantTracks v))) s)
                      \<lparr>uiError := Some ErrVariantNotFound\<rparr>
                | Some variantToSelect \<Rightarrow>
                    (let s1 = (addLog1 (LogSwitching (selectedProgramLabel s) (t_id variantToSelect)) s)
                                \<lparr>isSwitching := True, uiError := None\<rparr>;
                         s2 = (if mediaElement v then addLog1 LogPlayerState s1 else s1);
                         s3 = callEngine (ConfigureAbr False) (addLog1 LogDisablingAbr s2);
                         s4 = callEngine (SelectVariantTrack (t_id variantToSelect) True) s3
                     in case selectThrows v of
                          None \<Rightarrow>
                            setSwitchTimeout
                              (addLog1 (LogSelectCalled (selectedProgramLabel s) (t_id variantToSelect)) s4)
                        | Some msg \<Rightarrow>
                            clearSwitchTimeout
                              ((addLog1 (LogSelectError msg) s4)
                                 \<lparr>uiError := Some (ErrSwitching msg), isSwitching := False\<rparr>)))))"

definition handleProgramChange :: "string \<Rightarrow> session1 \<Rightarrow> session1" where
  \<comment> \<open>lines 326-340; the timer of line 332 puts the list of the page back on the
      selected program and touches no state\<close>
  "handleProgramChange newValue s =
     (if isSwitching s \<or> isLoading s then addLog1 (LogUserTried newValue (isSwitching s) (isLoading s)) s
      else (addLog1 (LogUserSelected newValue) s)\<lparr>selectedProgramLabel := newValue\<rparr>)"

definition onVariantChanged :: "engineView \<Rightarrow> session1 \<Rightarrow> session1" where
  \<comment> \<open>lines 82-99: the listener of the player's \<open>variantchanged\<close> event\<close>
  "onVariantChanged v s =
     (let s1 = (case find t_active (variantTracks v) of
                  None \<Rightarrow> s
                | Some newVariant \<Rightarrow> addLog1 (LogVariantChanged (t_id newVariant) (t_programName newVariant)) s);
          s2 = clearSwitchTimeout (s1\<lparr>isSwitching := False\<rparr>)
      in if hasPlayer s2 \<and> abrEnabled s2
         then callEngine (ConfigureAbr True) (addLog1 LogReenableAbr s2) else s2)"

definition onPlayerError :: "string \<Rightarrow> nat \<Rightarrow> session1 \<Rightarrow> session1" where
  \<comment> \<open>lines 73-80: the listener of the player's \<open>error\<close> event\<close>
  "onPlayerError msg code s =
     clearSwitchTimeout
       ((addLog1 (LogPlayerError code msg) s)
          \<lparr>uiError := Some (ErrPlayer msg code), isLoading := False, isSwitching := False\<rparr>)"

definition loadManifest :: "session1 \<Rightarrow> session1 \<times> nat" where
  \<comment> \<open>lines 154-168: \<open>loadManifest\<close> up to its \<open>await\<close>; with the state, the version that
      the rest of the function has captured\<close>
  "loadManifest s =
     (let s1 = clearSwitchTimeout
                 ((addLog1 (LogAttemptLoad (manifestUrlToLoad s)) s)
                    \<lparr>isLoading := True, uiError := None, programs := [],
                      selectedProgramLabel := [], isSwitching := False\<rparr>);
          s2 = s1\<lparr>manifestVersionRef := manifestVersionRef s1 + 1\<rparr>
      in (callEngine (Load (manifestUrlToLoad s)) s2, manifestVersionRef s2))"

definition programsOf :: "nat \<Rightarrow> track list \<Rightarrow> program list" where
  \<comment> \<open>lines 181-200: one program for each program name, from the first variant that
      has the name\<close>
  "programsOf currentManifestVersion ts =
     foldl (\<lambda>m t. if t_programName t \<in> set (map p_label m) then m
                   else m @ [\<lparr>p_label = t_programName t, variantId = t_id t,
                              p_bandwidth = t_bandwidth t,
                              manifestVersion = currentManifestVersion\<rparr>])
       [] ts"

definition initialProgramLabel :: "track list \<Rightarrow> program list \<Rightarrow> string" where
  \<comment> \<open>lines 205-215, for programs that are not empty\<close>
  "initialProgramLabel ts ps =
     (case find t_active ts of
        None \<Rightarrow> p_label (hd ps)
      | Some activeVariant \<Rightarrow>
          (case find (\<lambda>p. p_label p = t_activeProgramName activeVariant) ps of
             None \<Rightarrow> p_label (hd ps)
           | Some foundProgram \<Rightarrow> p_label foundProgram))"

definition loadResolved :: "nat \<Rightarrow> engineView \<Rightarrow> session1 \<Rightarrow> session1" where
  \<comment> \<open>lines 170-221 and 228-232: \<open>loadManifest\<close> after its \<open>await\<close>, when the load has
      succeeded, with the version it has captured\<close>
  "loadResolved currentManifestVersion v s =
     (if currentManifestVersion \<noteq> manifestVersionRef s then addLog1 LogLoadCancelled s
      else
        (let availablePrograms = programsOf currentManifestVersion (variantTracks v);
             s1 = foldl (\<lambda>s t. addLog1 (LogProgramName (t_programName t)) s)
                    (addLog1 (LogFoundTracks (length (variantTracks v))) (addLog1 LogManifestLoaded s))
                    (variantTracks v);
             s2 = addLog1 (LogPopulated (length availablePrograms)) (s1\<lparr>programs := availablePrograms\<rparr>);
             s3 = (if availablePrograms \<noteq> []
                   then (addLog1 (LogInitialProgram (initialProgramLabel (variantTracks v) availablePrograms)) s2)
                          \<lparr>selectedProgramLabel := initialProgramLabel (variantTracks v) availablePrograms\<rparr>
                   else (addLog1 LogNoPrograms s2)\<lparr>uiError := Some ErrNoPrograms\<rparr>)
         in s3\<lparr>isLoading := False\<rparr>))"

definition loadRejected :: "nat \<Rightarrow> string \<Rightarrow> session1 \<Rightarrow> session1" where
  \<comment> \<open>lines 223-232: \<open>loadManifest\<close> after its \<open>await\<close>, when the load has failed\<close>
  "loadRejected currentManifestVersion msg s =
     (if currentManifestVersion = manifestVersionRef s
      then (addLog1 (LogLoadError msg) s)\<lparr>uiError := Some (ErrLoading msg), isLoading := False\<rparr>
      else s)"

definition handleLoadClick :: "string \<Rightarrow> session1 \<Rightarrow> session1" where
  \<comment> \<open>lines 317-324, with the text of the input field\<close>
  "handleLoadClick hlsUrl s =
     (if trim hlsUrl \<noteq> [] then s\<lparr>manifestUrlToLoad := trim hlsUrl\<rparr>
      else (addLog1 LogEmptyUrl s)\<lparr>uiError := Some ErrEmptyUrl\<rparr>)"

definition advance :: "nat \<Rightarrow> session1 \<Rightarrow> session1" where
  \<comment> \<open>the clock moves on by \<open>dt\<close> milliseconds, and the timers that are due run, the
      older first\<close>
  "advance dt s =
     foldl (\<lambda>s t. onSwitchTimeout s)
       (s\<lparr>clock := clock s + dt, timers := filter (\<lambda>t. snd t > clock s + dt) (timers s)\<rparr>)
       (filter (\<lambda>t. snd t \<le> clock s + dt) (timers s))"

datatype event =
    SelectProgram string  \<comment> \<open>the user picks a program in the list\<close>
  | LoadClick string  \<comment> \<open>the user asks for a manifest\<close>
  | LoadResolved nat  \<comment> \<open>a load of the player succeeds; the version its caller captured\<close>
  | LoadRejected nat string
  | VariantChanged
  | PlayerError string nat
  | Elapse nat

definition loadStarts :: "string \<Rightarrow> session1 \<Rightarrow> bool" where
  \<comment> \<open>lines 149-152 and 236: the effect that loads the manifest runs when the URL to load
      has changed, and goes on when there is a URL and the player is ready\<close>
  "loadStarts hlsUrl s =
     (trim hlsUrl \<noteq> [] \<and> trim hlsUrl \<noteq> manifestUrlToLoad s \<and> hasPlayer s \<and> isPlayerReady s)"

definition step :: "engineView \<Rightarrow> event \<Rightarrow> session1 \<Rightarrow> session1" where
  \<comment> \<open>a callback and, after it, the effects whose dependencies it has changed. The switch
      effect depends on the selected label, the programs and the readiness of the player,
      not on \<open>isSwitching\<close> (line 313).\<close>
  "step v ev s =
     (case ev of
        SelectProgram newValue \<Rightarrow>
          (let s1 = handleProgramChange newValue s
           in if selectedProgramLabel s1 \<noteq> selectedProgramLabel s then switchEffect v s1 else s1)
      | LoadClick hlsUrl \<Rightarrow>
          (let s1 = handleLoadClick hlsUrl s
           in if loadStarts hlsUrl s then switchEffect v (fst (loadManifest s1)) else s1)
      | LoadResolved ver \<Rightarrow>
          (let s1 = loadResolved ver v s
           in if ver = manifestVersionRef s then switchEffect v s1 else s1)
      | LoadRejected ver msg \<Rightarrow> loadRejected ver msg s
      | VariantChanged \<Rightarrow> onVariantChanged v s
      | PlayerError msg code \<Rightarrow> onPlayerError msg code s
      | Elapse dt \<Rightarrow> advance dt s)"


definition dispatches :: "session1 \<Rightarrow> nat" where
  \<comment> \<open>the switches handed to the player so far\<close>
  "dispatches s = length (filter (\<lambda>c. case c of SelectVariantTrack _ _ \<Rightarrow> True | _ \<Rightarrow> False) (engineCalls s))"

subsection \<open>An example session\<close>

definition twoTracks :: "track list" where
  "twoTracks =
     [\<lparr>t_id = 1, t_active = True, t_programName = ''main'', t_activeProgramName = ''main'', t_bandwidth = 800000\<rparr>,
      \<lparr>t_id = 2, t_active = False, t_programName = ''wide'', t_activeProgramName = ''wide'', t_bandwidth = 800000\<rparr>,
      \<lparr>t_id = 3, t_active = False, t_programName = ''side'', t_activeProgramName = ''side'', t_bandwidth = 800000\<rparr>]"

definition silentEngine :: engineView where
  \<comment> \<open>a player that takes the calls and sends no event\<close>
  "silentEngine = \<lparr>variantTracks = twoTracks, mediaElement = True, selectThrows = None\<rparr>"

definition playingSession :: session1 where
  \<comment> \<open>the manifest of version 1 is loaded and the program \<open>main\<close> plays\<close>
  "playingSession =
     \<lparr>manifestUrlToLoad = ''https://h/s/master.m3u8'', programs = programsOf 1 twoTracks,
      selectedProgramLabel = ''main'', isLoading = False, isSwitching = False, uiError = None,
      isPlayerReady = True, playerLogs = [], abrEnabled = False, hasPlayer = True,
      switchTimeoutRef = None, manifestVersionRef = 1, clock = 0, timers = [], nextTimer = 1,
      engineCalls = [Load ''https://h/s/master.m3u8'']\<rparr>"




section \<open>The first program selector (\<open>part_000\<close>, its first component)\<close>

record program0 =
  label0 :: string
  representativeVariantId :: nat
  bandwidth0 :: nat

datatype log0 =
    LogNoProgramData0 string
  | LogAlreadyActive0 string nat
  | LogAttemptSwitch0 string nat
  | LogPlayerState0
  | LogSelectInitiated0 string nat
  | LogSwitchTimeout0
  | LogSelectError0 string
  | LogVariantMissing0 nat
  | LogUserSelected0 string
  | LogUserTried0 string

text \<open>
  A pending timer is the time at which it is due and the value of \<open>isSwitching\<close> that its
  callback has captured: the callback is a closure of the render in which the effect
  ran, and \<open>isSwitching\<close> is a constant of that render.
\<close>

record session0p =
  programs0 :: "program0 list"
  selectedProgramLabel0 :: string
  isLoading0 :: bool
  isSwitching0 :: bool
  uiError0 :: "uiError option"
  isPlayerReady0 :: bool
  playerLogs0 :: "log0 list"
  hasPlayer0 :: bool
  clock0 :: nat
  timers0 :: "(nat \<times> bool) list"
  engineCalls0 :: "engineCall list"

definition addLog0 :: "log0 \<Rightarrow> session0p \<Rightarrow> session0p" where
  \<comment> \<open>lines 24-30\<close>
  "addLog0 msg s = s\<lparr>playerLogs0 := msg # take 19 (playerLogs0 s)\<rparr>"

definition switchEffect0 :: "engineView \<Rightarrow> session0p \<Rightarrow> session0p" where
  \<comment> \<open>lines 176-231: the effect that switches the variant track. When it has set
      \<open>isSwitching\<close> it runs again, \<open>isSwitching\<close> being one of its dependencies, and
      returns at its first line.\<close>
  "switchEffect0 v s =
     (if selectedProgramLabel0 s = [] \<or> \<not> hasPlayer0 s \<or> programs0 s = [] \<or> \<not> isPlayerReady0 s
         \<or> isSwitching0 s then s
      else
        (case find (\<lambda>p. label0 p = selectedProgramLabel0 s) (programs0 s) of
           None \<Rightarrow> addLog0 (LogNoProgramData0 (selectedProgramLabel0 s)) s
         | Some programData \<Rightarrow>
             if representativeVariantId programData = 0
             then addLog0 (LogNoProgramData0 (selectedProgramLabel0 s)) s
             else if (case find t_active (variantTracks v) of
                        None \<Rightarrow> False
                      | Some activeVariant \<Rightarrow> t_id activeVariant = representativeVariantId programData)
               then addLog0 (LogAlreadyActive0 (selectedProgramLabel0 s) (representativeVariantId programData)) s
             else
               (case find (\<lambda>t. t_id t = representativeVariantId programData) (variantTracks v) of
                  Some variantToSelect \<Rightarrow>
                    (let s1 = (addLog0 (LogAttemptSwitch0 (selectedProgramLabel0 s) (t_id variantToSelect)) s)
                                \<lparr>isSwitching0 := True, uiError0 := None\<rparr>;
                         s2 = (if mediaElement v then addLog0 LogPlayerState0 s1 else s1);
                         s3 = s2\<lparr>engineCalls0 := engineCalls0 s2 @ [SelectVariantTrack (t_id variantToSelect) True]\<rparr>
                     in case selectThrows v of
                          None \<Rightarrow>
                            (addLog0 (LogSelectInitiated0 (selectedProgramLabel0 s) (t_id variantToSelect)) s3)
                              \<lparr>timers0 := timers0 s3 @ [(clock0 s3 + 5000, isSwitching0 s)]\<rparr>
                        | Some msg \<Rightarrow>
                            (addLog0 (LogSelectError0 msg) s3)
                              \<lparr>uiError0 := Some (ErrSwitching msg), isSwitching0 := False\<rparr>)
                | None \<Rightarrow>
                    (addLog0 (LogVariantMissing0 (representativeVariantId programData)) s)
                      \<lparr>uiError0 := Some ErrVariantNotFound, isSwitching0 := False\<rparr>)))"

definition onSwitchTimeout0 :: "bool \<Rightarrow> session0p \<Rightarrow> session0p" where
  \<comment> \<open>lines 214-219: the callback of the timer, with the \<open>isSwitching\<close> it has captured\<close>
  "onSwitchTimeout0 captured s =
     (if captured then (addLog0 LogSwitchTimeout0 s)\<lparr>isSwitching0 := False\<rparr> else s)"

definition advance0 :: "nat \<Rightarrow> session0p \<Rightarrow> session0p" where
  \<comment> \<open>the clock moves on by \<open>dt\<close> milliseconds, and the timers that are due run, the
      older first\<close>
  "advance0 dt s =
     foldl (\<lambda>s t. onSwitchTimeout0 (snd t) s)
       (s\<lparr>clock0 := clock0 s + dt, timers0 := filter (\<lambda>t. fst t > clock0 s + dt) (timers0 s)\<rparr>)
       (filter (\<lambda>t. fst t \<le> clock0 s + dt) (timers0 s))"

definition handleProgramChange0 :: "string \<Rightarrow> session0p \<Rightarrow> session0p" where
  \<comment> \<open>lines 244-251\<close>
  "handleProgramChange0 newValue s =
     (if \<not> isSwitching0 s
      then (addLog0 (LogUserSelected0 newValue) s)\<lparr>selectedProgramLabel0 := newValue\<rparr>
      else addLog0 (LogUserTried0 newValue) s)"

definition selectProgram0 :: "engineView \<Rightarrow> string \<Rightarrow> session0p \<Rightarrow> session0p" where
  \<comment> \<open>the handler, and the effect when the selected label has changed\<close>
  "selectProgram0 v newValue s =
     (let s1 = handleProgramChange0 newValue s
      in if selectedProgramLabel0 s1 \<noteq> selectedProgramLabel0 s then switchEffect0 v s1 else s1)"

definition playingSession0 :: session0p where
  \<comment> \<open>the programs of \<open>twoTracks\<close> are loaded and \<open>main\<close> plays\<close>
  "playingSession0 =
     \<lparr>programs0 = [\<lparr>label0 = ''main'', representativeVariantId = 1, bandwidth0 = 800000\<rparr>,
                    \<lparr>label0 = ''wide'', representativeVariantId = 2, bandwidth0 = 800000\<rparr>],
      selectedProgramLabel0 = ''main'', isLoading0 = False, isSwitching0 = False, uiError0 = None,
      isPlayerReady0 = True, playerLogs0 = [], hasPlayer0 = True, clock0 = 0, timers0 = [],
      engineCalls0 = [Load ''https://h/s/master.m3u8'']\<rparr>"

section \<open>The layout selection of \<open>src/App.js\<close>\<close>

datatype logA =
    LogUserTriedA string
  | LogUserSelectedA string
  | LogAlreadyLoadedA string
  | LogLoadingLayoutA string string
  | LogSavingTimeA rat
  | LogLayoutErrorA string string

record sessionA =
  layoutsA :: "layout list"
  selectedLayoutA :: string
  isLoadingA :: bool
  isSwitchingA :: bool
  uiErrorA :: "uiError option"
  isPlayerReadyA :: bool
  playerLogsA :: "logA list"
  hasPlayerA :: bool
  currentLayoutRefA :: "string option"
  engineCallsA :: "engineCall list"

definition addLogA :: "logA \<Rightarrow> sessionA \<Rightarrow> sessionA" where
  \<comment> \<open>lines 26-32\<close>
  "addLogA msg s = s\<lparr>playerLogsA := msg # take 19 (playerLogsA s)\<rparr>"

definition handleLayoutChange :: "string \<Rightarrow> sessionA \<Rightarrow> sessionA" where
  \<comment> \<open>lines 355-365\<close>
  "handleLayoutChange newLayout s =
     (if isSwitchingA s \<or> isLoadingA s then addLogA (LogUserTriedA newLayout) s
      else (addLogA (LogUserSelectedA newLayout) s)\<lparr>selectedLayoutA := newLayout\<rparr>)"

definition loadLayoutEffect :: "rat \<Rightarrow> sessionA \<Rightarrow> sessionA" where
  \<comment> \<open>lines 276-307: the effect that loads the selected layout, up to the \<open>await\<close> of
      the load; \<open>t\<close> is the time of the video\<close>
  "loadLayoutEffect t s =
     (if selectedLayoutA s = [] \<or> \<not> isPlayerReadyA s \<or> layoutsA s = [] then s
      else
        (case find (\<lambda>l. l_name l = selectedLayoutA s) (layoutsA s) of
           None \<Rightarrow> s
         | Some layoutData \<Rightarrow>
             if currentLayoutRefA s = Some (selectedLayoutA s)
             then addLogA (LogAlreadyLoadedA (selectedLayoutA s)) s
             else
               (let s1 = addLogA (LogLoadingLayoutA (selectedLayoutA s) (masterUrl layoutData))
                           (s\<lparr>isSwitchingA := True, uiErrorA := None\<rparr>);
                    s2 = (if hasPlayerA s \<and> currentLayoutRefA s \<noteq> None
                          then addLogA (LogSavingTimeA t) s1 else s1)
                in if hasPlayerA s
                   then s2\<lparr>engineCallsA := engineCallsA s2 @ [Load (masterUrl layoutData)]\<rparr>
                   else (addLogA (LogLayoutErrorA (selectedLayoutA s) ''TypeError'') s2)
                          \<lparr>uiErrorA := Some (ErrLoading ''TypeError''), isSwitchingA := False\<rparr>)))"

definition selectLayout :: "rat \<Rightarrow> string \<Rightarrow> sessionA \<Rightarrow> sessionA" where
  \<comment> \<open>the handler, and the effect when the selected layout has changed\<close>
  "selectLayout t newLayout s =
     (let s1 = handleLayoutChange newLayout s
      in if selectedLayoutA s1 \<noteq> selectedLayoutA s then loadLayoutEffect t s1 else s1)"

definition loadsA :: "sessionA \<Rightarrow> nat" where
  \<comment> \<open>the loads handed to the player so far\<close>
  "loadsA s = length (filter (\<lambda>c. case c of Load _ \<Rightarrow> True | _ \<Rightarrow> False) (engineCallsA s))"

definition exampleStream :: "string \<Rightarrow> stream" where
  "exampleStream nm =
     \<lparr>bandwidth = 800000, resolution = ''640x360'',
      streamInfoLine = ''#EXT-X-STREAM-INF:BANDWIDTH=800000,RESOLUTION=640x360'',
      streamUrlLine = nm @ ''/v.m3u8''\<rparr>"

definition playingSessionA :: sessionA where
  \<comment> \<open>the layouts \<open>a\<close> and \<open>B\<close> are loaded and \<open>a\<close> plays\<close>
  "playingSessionA =
     \<lparr>layoutsA = [toLayout ''https://h/s/'' (pushTo (freshLayout ''a'') (exampleStream ''a'')),
                  toLayout ''https://h/s/'' (pushTo (freshLayout ''B'') (exampleStream ''B''))],
      selectedLayoutA = ''a'', isLoadingA = False, isSwitchingA = False, uiErrorA = None,
      isPlayerReadyA = True, playerLogsA = [], hasPlayerA = True, currentLayoutRefA = Some ''a'',
      engineCallsA = [Load ''https://h/s/a/master.m3u8'']\<rparr>"

section \<open>Properties of the manifest parsers\<close>

subsection \<open>The base URL\<close>

lemma lastIndexOf_neg: "lastIndexOf c xs < 0 \<longleftrightarrow> c \<notin> set xs"
  by (induction xs) (auto simp: Let_def)

lemma baseUrlOf_truncate: "baseUrlOf u = truncateAfterLast CHR ''/'' u"
proof -
  have "take (nat (lastIndexOf c xs + 1)) xs = rev (dropWhile (\<lambda>x. x \<noteq> c) (rev xs))"
    for c :: char and xs
  proof (induction xs)
    case Nil
    then show ?case by simp
  next
    case (Cons x xs)
    show ?case
    proof (cases "c \<in> set xs")
      case True
      then have r: "0 \<le> lastIndexOf c xs" using lastIndexOf_neg [of c xs] by simp
      then have "nat (lastIndexOf c xs + 1 + 1) = Suc (nat (lastIndexOf c xs + 1))" by simp
      with r True Cons show ?thesis
        by (simp add: Let_def dropWhile_append1)
    next
      case False
      then have r: "lastIndexOf c xs < 0" using lastIndexOf_neg [of c xs] by simp
      from False have "dropWhile (\<lambda>x. x \<noteq> c) (rev xs @ ys) = dropWhile (\<lambda>x. x \<noteq> c) ys" for ys
        by (intro dropWhile_append2) auto
      with r show ?thesis
        by (simp add: Let_def)
    qed
  qed
  then show ?thesis by (simp add: baseUrlOf_def substring0_def truncateAfterLast_def)
qed

subsection \<open>The map of the scan is the grouping of the well-formed pairs\<close>










subsection \<open>The same for the parser of \<open>part_002\<close>\<close>






subsection \<open>The patterns of the parsers and the attributes of a line\<close>













subsection \<open>Evaluations of the examples\<close>

lemma mixedCase_names:
  "map l_name (parseLayouts rootSortKey exampleUrl mixedCaseManifest) = [''a'', ''B'']"
  by code_simp




lemma average_facts:
  "attributesOf averageLine
     = [(''AVERAGE-BANDWIDTH'', ''500''), (''RESOLUTION'', ''1x1''),
        (''NAME'', [CHR 0x22] @ ''x'' @ [CHR 0x22])]"
  "attributeValue ''BANDWIDTH'' averageLine = None"
  "bandwidthAttribute averageLine = None"
  "splitOn CHR 0x0A averageManifest = [averageLine, ''x/v.m3u8'']"
  "pairsOf keyByNameVideoSegmentToken (splitOn CHR 0x0A averageManifest) = []"
  "map name2 (parseLayouts2 rootSortKey exampleUrl averageManifest) = [''x'']"
  "parseLayouts rootSortKey exampleUrl ([CHR 0x0A] @ ''x/v.m3u8'') = []"
  "parseLayouts2 rootSortKey exampleUrl ([CHR 0x0A] @ ''x/v.m3u8'') = []"
  by code_simp+

lemma average_facts2:
  "map (\<lambda>l. (l_name l, l_bandwidth l)) (parseLayouts rootSortKey exampleUrl averageManifest) = [(''x'', 500)]"
  by code_simp

lemma average_facts3:
  "bandwidthAttribute (hd (splitOn CHR 0x0A averageFirstManifest)) = Some ''800''"
  "map (\<lambda>l. (l_name l, l_bandwidth l)) (parseLayouts rootSortKey exampleUrl averageFirstManifest) = [(''x'', 500)]"
  by code_simp+


lemma example_base: "truncateAfterLast CHR ''/'' exampleUrl = ''https://h/s/''"
  by code_simp

lemma not_found_page_parses:
  "snd (parseManifestForLayouts rootSortKey exampleUrl (Responded False 404 (Text ''Not Found''))) = Inr []"
  by code_simp

lemma parse2_fetch_errors:
  fixes key :: "string \<Rightarrow> 'k::linorder"
  shows "snd (parseManifestForLayouts2 key manifestUrl (Rejected e)) = Inl (FetchFailed e)"
    and "snd (parseManifestForLayouts2 key manifestUrl (Responded False status body)) = Inl (HttpError status)"
    and "snd (parseManifestForLayouts2 key manifestUrl (Responded True status (TextFailed e))) = Inl (FetchFailed e)"
  by (simp_all add: parseManifestForLayouts2_def)

subsection \<open>The claims about the parser\<close>




text \<open>
  Claim C7 fails on both parsers. The stream-info line
  \<open>#EXT-X-STREAM-INF:AVERAGE-BANDWIDTH=500,RESOLUTION=1x1,NAME="x"\<close> has three
  attributes, none of them \<open>BANDWIDTH\<close>: the entry lacks a bandwidth and is to be
  dropped. The pattern \<open>BANDWIDTH=(\d+)\<close> of the parsers is not tied to the start of an
  attribute and matches inside \<open>AVERAGE-BANDWIDTH=500\<close>: both parsers keep the entry,
  \<open>src/App.js\<close> with the bandwidth 500, where the manifest without that stream-info
  line gives no layout at all.
\<close>

theorem entry_without_bandwidth_attribute_is_kept:
  "attributesOf averageLine
     = [(''AVERAGE-BANDWIDTH'', ''500''), (''RESOLUTION'', ''1x1''),
        (''NAME'', [CHR 0x22] @ ''x'' @ [CHR 0x22])]
   \<and> bandwidthAttribute averageLine = None
   \<and> splitOn CHR 0x0A averageManifest = [averageLine, ''x/v.m3u8'']
   \<and> map (\<lambda>l. (l_name l, l_bandwidth l)) (parseLayouts rootSortKey exampleUrl averageManifest)
       = [(''x'', 500)]
   \<and> map name2 (parseLayouts2 rootSortKey exampleUrl averageManifest) = [''x'']
   \<and> parseLayouts rootSortKey exampleUrl ([CHR 0x0A] @ ''x/v.m3u8'') = []
   \<and> parseLayouts2 rootSortKey exampleUrl ([CHR 0x0A] @ ''x/v.m3u8'') = []"
  using average_facts(1,3,4,6,7,8) average_facts2 by (intro conjI)

text \<open>
  The same pattern gives a wrong bandwidth to an entry that has one: with the average
  bandwidth written before the bandwidth, the parser of \<open>src/App.js\<close> reports the
  average.
\<close>

lemma average_bandwidth_taken_for_bandwidth:
  "bandwidthAttribute (hd (splitOn CHR 0x0A averageFirstManifest)) = Some ''800''
   \<and> map (\<lambda>l. (l_name l, l_bandwidth l)) (parseLayouts rootSortKey exampleUrl averageFirstManifest)
       = [(''x'', 500)]"
  using average_facts3 by (intro conjI)

text \<open>
  Claim C8. The parser of \<open>src/App.js\<close> does not look at the status of the response: a
  response that is not a success is parsed as any other, and its layouts are returned.
  (The parser of \<open>part_002\<close> throws: \<open>parse2_fetch_errors\<close>.)
\<close>

theorem app_parser_ignores_http_status:
  fixes key :: "string \<Rightarrow> 'k::linorder"
  shows "snd (parseManifestForLayouts key manifestUrl (Responded False status (Text body)))
          = Inr (parseLayouts key manifestUrl body)"
  by (simp add: parseManifestForLayouts_def parseLayouts_def Let_def)

text \<open>
  Claim C9. The master URL of every parsed layout is the manifest URL up to and with its
  last \<open>/\<close>, then the layout key, then \<open>/master.m3u8\<close>, whatever the URI lines of the
  manifest are.
\<close>

theorem master_url_from_base_and_key:
  fixes key :: "string \<Rightarrow> 'k::linorder"
  shows "(\<forall>l \<in> set (parseLayouts key manifestUrl manifestText).
           masterUrl l = truncateAfterLast CHR ''/'' manifestUrl @ l_name l @ ''/master.m3u8'')
     \<and> (\<forall>l \<in> set (parseLayouts2 key manifestUrl manifestText).
           masterUrl2 l = truncateAfterLast CHR ''/'' manifestUrl @ name2 l @ ''/master.m3u8'')"
  by (auto simp: parseLayouts_def parseLayouts2_def toLayout_def toLayout2_def baseUrlOf_truncate)

theorem master_url_from_base_and_key_witness:
  "map l_name (parseLayouts rootSortKey exampleUrl mixedCaseManifest) = [''a'', ''B'']
   \<and> list_all (\<lambda>l. masterUrl l = ''https://h/s/'' @ l_name l @ ''/master.m3u8'')
        (parseLayouts rootSortKey exampleUrl mixedCaseManifest)
   \<and> list_all (\<lambda>l. masterUrl2 l = ''https://h/s/'' @ name2 l @ ''/master.m3u8'')
        (parseLayouts2 rootSortKey exampleUrl mixedCaseManifest)"
  using master_url_from_base_and_key [of rootSortKey exampleUrl mixedCaseManifest] mixedCase_names
  by (simp add: list_all_iff example_base)
section \<open>Properties of the click handler\<close>

lemma largestRegion_snoc:
  "largestRegion (rs @ [r]) =
     (case largestRegion rs of
        None \<Rightarrow> Some (length rs, r)
      | Some l \<Rightarrow> if area r > area (snd l) then Some (length rs, r) else Some l)"
  by (simp add: largestRegion_def enumerate_append_eq split: option.splits)

lemma largestRegion_first:
  "rs \<noteq> [] \<Longrightarrow> \<exists>k. largestRegion rs = Some (k, rs ! k) \<and> isFirstLargest rs k"
proof (induction rs rule: rev_induct)
  case Nil
  then show ?case by simp
next
  case (snoc r rs)
  show ?case
  proof (cases "rs = []")
    case True
    then have "largestRegion (rs @ [r]) = Some (0, (rs @ [r]) ! 0)"
      by (simp add: largestRegion_def)
    moreover have "isFirstLargest (rs @ [r]) 0"
      using True by (simp add: isFirstLargest_def area_def)
    ultimately show ?thesis by blast
  next
    case False
    with snoc.IH obtain k where k: "largestRegion rs = Some (k, rs ! k)" "isFirstLargest rs k"
      by blast
    then have kl: "k < length rs" by (simp add: isFirstLargest_def area_def)
    show ?thesis
    proof (cases "area r > area (rs ! k)")
      case True
      then have "largestRegion (rs @ [r]) = Some (length rs, (rs @ [r]) ! length rs)"
        using k(1) by (simp add: largestRegion_snoc)
      moreover have "isFirstLargest (rs @ [r]) (length rs)"
        using True k(2) by (auto simp: isFirstLargest_def list_all_iff area_def)
      ultimately show ?thesis by blast
    next
      case False
      then have "largestRegion (rs @ [r]) = Some (k, (rs @ [r]) ! k)"
        using k(1) kl by (simp add: largestRegion_snoc nth_append)
      moreover have "isFirstLargest (rs @ [r]) k"
        using False k(2) kl by (auto simp: isFirstLargest_def list_all_iff nth_append area_def)
      ultimately show ?thesis by blast
    qed
  qed
qed

lemma find_filter: "find P (filter Q xs) = find (\<lambda>x. Q x \<and> P x) xs"
  by (induction xs) auto

lemma enumerate_nth: "enumerate 0 rs = map (\<lambda>j. (j, rs ! j)) [0..<length rs]"
proof -
  have "zip [0..<length rs] rs = map (\<lambda>j. (j, rs ! j)) [0..<length rs]"
    by (rule nth_equalityI) simp_all
  then show ?thesis by (simp add: enumerate_eq_zip)
qed

lemma find_map_option: "find P (map f xs) = map_option f (find (\<lambda>x. P (f x)) xs)"
  by (induction xs) simp_all

lemma inRegion_boxContains: "inRegion (Some p) r = boxContains p r"
  by (cases p) (auto simp: inRegion_def boxContains_def)

lemma clickable_hit:
  assumes "largestRegion rs = Some (k, rs ! k)"
  shows "find (\<lambda>r. inRegion (Some p) (snd r)) (clickableRegions rs)
           = map_option (\<lambda>j. (j, rs ! j)) (firstHit p k rs)"
proof -
  have "find (\<lambda>x. Some x \<noteq> Some (k, rs ! k) \<and> inRegion (Some p) (snd x)) (enumerate 0 rs)
      = find (\<lambda>jr. fst jr \<noteq> k \<and> boxContains p (snd jr)) (enumerate 0 rs)"
    by (rule find_cong) (auto simp: in_set_enumerate_eq inRegion_boxContains)
  also have "\<dots> = map_option (\<lambda>j. (j, rs ! j)) (firstHit p k rs)"
    by (simp add: enumerate_nth find_map_option firstHit_def)
  finally show ?thesis
    by (simp add: clickableRegions_def find_filter assms)
qed

lemma displayBox_centered:
  fixes ar w h :: rat
  assumes "0 < ar" "0 < w" "0 < h"
  shows "case displayBox ar w h of
           (dw, dh, ox, oy) \<Rightarrow>
             dw = dh * ar \<and> 0 < dw \<and> 0 < dh \<and> dw \<le> w \<and> dh \<le> h \<and> (dw = w \<or> dh = h)
             \<and> ox = (w - dw) / 2 \<and> oy = (h - dh) / 2"
proof (cases "w / h > ar")
  case True
  with assms have "h * ar < w" by (simp add: pos_less_divide_eq mult.commute)
  with True assms show ?thesis by (simp add: displayBox_def)
next
  case False
  with assms have "w \<le> h * ar" by (simp add: pos_less_divide_eq mult.commute not_less)
  with assms have "w / ar \<le> h" by (simp add: pos_divide_le_eq)
  with False assms show ?thesis by (simp add: displayBox_def)
qed


lemma findLayout_Some:
  "findLayout nm ls = Some l \<Longrightarrow> l \<in> set ls \<and> toLowerCase (name2 l) = toLowerCase nm"
  by (auto simp: findLayout_def find_Some_iff)

lemma findLayout_None:
  "findLayout nm ls = None \<Longrightarrow> list_all (\<lambda>l. toLowerCase (name2 l) \<noteq> toLowerCase nm) ls"
  by (auto simp: findLayout_def find_None_iff list_all_iff)

lemma example_click_facts:
  "mapToCanvas2 exampleClick 1920 1080 = Some (100, 100)"
  "inRegion (Some (100, 100)) wideRegion"
  "selectedLayout (fst (handleVideoClick2 exampleClick (exampleSession [backgroundRegion, wideRegion]))) = ''Wide''"
  "snd (handleVideoClick2 exampleClick (exampleSession [backgroundRegion, wideRegion])) = None"
  "handleVideoClick2 exampleClick (exampleSession [wideRegion]) = (exampleSession [wideRegion], None)"
  "findLayout ''wide'' (layouts (exampleSession [wideRegion])) = Some (toLayout2 ''https://h/s/'' ''Wide'')"
  by (simp_all add: mapToCanvas2_def canvasPoint_def displayBox_def exampleClick_def inRegion_def
       wideRegion_def backgroundRegion_def handleVideoClick2_def exampleSession_def toLayout2_def
       clickableRegions_def largestRegion_def enumerate_eq_zip area_def findLayout_def
       toLowerCase_def toLowerChar_def addLog2_def)

lemma example_guards:
  "1 < length (layouts (exampleSession rs))" "videoPresent exampleClick" "containerPresent exampleClick"
  "videoWidth exampleClick \<noteq> 0" "videoHeight exampleClick \<noteq> 0"
  "0 < rectWidth exampleClick" "0 < rectHeight exampleClick"
  "regions (exampleSession [backgroundRegion, wideRegion]) \<noteq> []"
  by (simp_all add: exampleSession_def exampleClick_def)

lemma single_layout_facts:
  "length (layouts singleLayoutSession) = 1" "length (layouts singleLayoutSession0) = 1"
  by (simp_all add: singleLayoutSession_def singleLayoutSession0_def)

lemma letterbox_guards:
  "1 < length (layouts (exampleSession rs))"
  "videoPresent letterboxClick" "containerPresent letterboxClick"
  "videoWidth letterboxClick \<noteq> 0" "videoHeight letterboxClick \<noteq> 0"
  "0 < rectWidth letterboxClick" "0 < rectHeight letterboxClick"
  "videoPresent barClick" "containerPresent barClick"
  "videoWidth barClick \<noteq> 0" "videoHeight barClick \<noteq> 0"
  "0 < rectWidth barClick" "0 < rectHeight barClick"
  by (simp_all add: exampleSession_def letterboxClick_def barClick_def)

lemma letterbox_facts:
  "displayBox (1280 / 720) 960 720 = (960, 540, 0, 90)"
  "isFirstLargest [backgroundRegion, wideRegion] k \<longleftrightarrow> k = 0"
  "firstHit (100, 100) 0 [backgroundRegion, wideRegion] = Some 1"
  "firstHit (100, - 80) 0 [backgroundRegion, wideRegion] = None"
  "parent_layout_name wideRegion = Some ''wide''"
  "findLayout ''wide'' (layouts (exampleSession rs)) = Some (toLayout2 ''https://h/s/'' ''Wide'')"
proof -
  show "displayBox (1280 / 720) 960 720 = (960, 540, 0, 90)"
    by (simp add: displayBox_def)
  have "k < 2 \<longleftrightarrow> k = 0 \<or> k = 1" by auto
  then show "isFirstLargest [backgroundRegion, wideRegion] k \<longleftrightarrow> k = 0"
    by (auto simp: isFirstLargest_def backgroundRegion_def wideRegion_def area_def)
  show "firstHit (100, 100) 0 [backgroundRegion, wideRegion] = Some 1"
    and "firstHit (100, - 80) 0 [backgroundRegion, wideRegion] = None"
    by (simp_all add: firstHit_def boxContains_def backgroundRegion_def wideRegion_def upt_rec)
  show "parent_layout_name wideRegion = Some ''wide''"
    by (simp add: wideRegion_def)
  show "findLayout ''wide'' (layouts (exampleSession rs)) = Some (toLayout2 ''https://h/s/'' ''Wide'')"
    by (simp add: findLayout_def exampleSession_def toLayout2_def toLowerCase_def toLowerChar_def)
qed

lemma hit_region_without_parent_throws:
  "snd (handleVideoClick2 exampleClick
          (exampleSession [backgroundRegion, wideRegion\<lparr>parent_layout_name := None\<rparr>]))
     = Some TypeError"
  by (simp add: mapToCanvas2_def canvasPoint_def displayBox_def exampleClick_def inRegion_def
       wideRegion_def backgroundRegion_def handleVideoClick2_def exampleSession_def toLayout2_def
       clickableRegions_def largestRegion_def enumerate_eq_zip area_def addLog2_def)

text \<open>
  Claim C6, as the code has it. With at least two layouts, the video and its size known,
  a container that is not empty and regions for the active layout:

    \<^item> the picture keeps the aspect ratio of the video, fits in the container, fills its
      width or its height, and is centred in it, with bars of the same size on both
      sides;
    \<^item> the click is taken to the canvas point whose coordinates are the distances of the
      click from the left and the top border of the picture, as fractions of the width
      and the height of the picture, times the width and the height of the canvas;
    \<^item> the handler changes nothing but the selection and the log;
    \<^item> there is a region \<open>k\<close>, the first of the largest area, that is left out of the hit
      test; the region hit is the first of the others, in stored order, whose box, with
      its borders, contains the canvas point; with no such region the click does
      nothing;
    \<^item> the \<open>parent_layout_name\<close> that a hit region carries is looked up among the layouts
      whatever the case of the letters; a layout found is the selection after the
      click, a name not found is logged and is no error.

  The region of the example is hit when it is not the region left out: see the witness,
  where a region of the whole canvas comes first, the picture is letterboxed, and a
  click in the bar above the picture hits nothing.
\<close>

theorem click_proposes_layout_of_hit_region:
  assumes "1 < length (layouts s)" and "videoPresent e" and "containerPresent e"
    and "videoWidth e \<noteq> 0" and "videoHeight e \<noteq> 0"
    and "0 < rectWidth e" and "0 < rectHeight e" and "regions s \<noteq> []"
  shows "(case displayBox (of_nat (videoWidth e) / of_nat (videoHeight e)) (rectWidth e) (rectHeight e) of
           (dw, dh, ox, oy) \<Rightarrow>
             dw = dh * (of_nat (videoWidth e) / of_nat (videoHeight e)) \<and> 0 < dw \<and> 0 < dh
             \<and> dw \<le> rectWidth e \<and> dh \<le> rectHeight e \<and> (dw = rectWidth e \<or> dh = rectHeight e)
             \<and> ox = (rectWidth e - dw) / 2 \<and> oy = (rectHeight e - dh) / 2
             \<and> (\<exists>k. isFirstLargest (regions s) k \<and>
                  (case firstHit ((clientX e - (rectLeft e + ox)) / dw * canvasWidth s,
                                  (clientY e - (rectTop e + oy)) / dh * canvasHeight s)
                          k (regions s) of
                     None \<Rightarrow> handleVideoClick2 e s = (s, None)
                   | Some j \<Rightarrow>
                       (case parent_layout_name (regions s ! j) of
                          None \<Rightarrow> True
                        | Some nm \<Rightarrow>
                            snd (handleVideoClick2 e s) = None \<and>
                            (case findLayout nm (layouts s) of
                               None \<Rightarrow>
                                 list_all (\<lambda>l. toLowerCase (name2 l) \<noteq> toLowerCase nm) (layouts s) \<and>
                                 fst (handleVideoClick2 e s)
                                   = addLog2 (LogLayoutNotFound nm)
                                       (addLog2 (LogClickedRegion (source_type (regions s ! j))
                                                   (source_idx (regions s ! j))) s)
                             | Some l \<Rightarrow>
                                 l \<in> set (layouts s) \<and> toLowerCase (name2 l) = toLowerCase nm \<and>
                                 selectedLayout (fst (handleVideoClick2 e s)) = name2 l)))))
    \<and> (fst (handleVideoClick2 e s))\<lparr>selectedLayout := selectedLayout s, playerLogs2 := playerLogs2 s\<rparr> = s"
proof (rule conjI)
  let ?ar = "of_nat (videoWidth e) / of_nat (videoHeight e) :: rat"
  obtain dw dh ox oy where box: "displayBox ?ar (rectWidth e) (rectHeight e) = (dw, dh, ox, oy)"
    by (metis prod_cases4)
  let ?p = "((clientX e - (rectLeft e + ox)) / dw * canvasWidth s,
             (clientY e - (rectTop e + oy)) / dh * canvasHeight s)"
  have ar: "0 < ?ar" using assms(4,5) by simp
  have centred: "dw = dh * ?ar \<and> 0 < dw \<and> 0 < dh
             \<and> dw \<le> rectWidth e \<and> dh \<le> rectHeight e \<and> (dw = rectWidth e \<or> dh = rectHeight e)
             \<and> ox = (rectWidth e - dw) / 2 \<and> oy = (rectHeight e - dh) / 2"
    using displayBox_centered [OF ar assms(6,7), unfolded box prod.case] .
  from largestRegion_first [OF assms(8)]
  obtain k where k: "largestRegion (regions s) = Some (k, regions s ! k)"
    and fl: "isFirstLargest (regions s) k" by blast
  have m: "mapToCanvas2 e (canvasWidth s) (canvasHeight s) = Some ?p"
    using assms(6,7) by (simp add: mapToCanvas2_def canvasPoint_def box diff_diff_eq)
  have h: "handleVideoClick2 e s =
        (case firstHit ?p k (regions s) of
           None \<Rightarrow> (s, None)
         | Some j \<Rightarrow>
             (let s1 = addLog2 (LogClickedRegion (source_type (regions s ! j))
                                  (source_idx (regions s ! j))) s
              in case parent_layout_name (regions s ! j) of
                   None \<Rightarrow> (s1, Some TypeError)
                 | Some nextLayoutNameFromApi \<Rightarrow>
                     (case findLayout nextLayoutNameFromApi (layouts s) of
                        Some nextLayout \<Rightarrow>
                          if name2 nextLayout \<noteq> selectedLayout s
                          then ((addLog2 (LogSwitchingTo (name2 nextLayout)) s1)
                                  \<lparr>selectedLayout := name2 nextLayout\<rparr>, None)
                          else (s1, None)
                      | None \<Rightarrow> (addLog2 (LogLayoutNotFound nextLayoutNameFromApi) s1, None))))"
    using assms(1-5,8)
    by (simp add: handleVideoClick2_def m clickable_hit [OF k] split: option.splits)
  have "case firstHit ?p k (regions s) of
            None \<Rightarrow> handleVideoClick2 e s = (s, None)
          | Some j \<Rightarrow>
              (case parent_layout_name (regions s ! j) of
                 None \<Rightarrow> True
               | Some nm \<Rightarrow>
                   snd (handleVideoClick2 e s) = None \<and>
                   (case findLayout nm (layouts s) of
                      None \<Rightarrow>
                        list_all (\<lambda>l. toLowerCase (name2 l) \<noteq> toLowerCase nm) (layouts s) \<and>
                        fst (handleVideoClick2 e s)
                          = addLog2 (LogLayoutNotFound nm)
                              (addLog2 (LogClickedRegion (source_type (regions s ! j))
                                          (source_idx (regions s ! j))) s)
                    | Some l \<Rightarrow>
                        l \<in> set (layouts s) \<and> toLowerCase (name2 l) = toLowerCase nm \<and>
                        selectedLayout (fst (handleVideoClick2 e s)) = name2 l))"
    unfolding h
    by (auto simp: Let_def addLog2_def split: option.splits dest: findLayout_Some findLayout_None)
  with fl centred show "case displayBox ?ar (rectWidth e) (rectHeight e) of
           (dw, dh, ox, oy) \<Rightarrow>
             dw = dh * ?ar \<and> 0 < dw \<and> 0 < dh
             \<and> dw \<le> rectWidth e \<and> dh \<le> rectHeight e \<and> (dw = rectWidth e \<or> dh = rectHeight e)
             \<and> ox = (rectWidth e - dw) / 2 \<and> oy = (rectHeight e - dh) / 2
             \<and> (\<exists>k. isFirstLargest (regions s) k \<and>
                  (case firstHit ((clientX e - (rectLeft e + ox)) / dw * canvasWidth s,
                                  (clientY e - (rectTop e + oy)) / dh * canvasHeight s)
                          k (regions s) of
                     None \<Rightarrow> handleVideoClick2 e s = (s, None)
                   | Some j \<Rightarrow>
                       (case parent_layout_name (regions s ! j) of
                          None \<Rightarrow> True
                        | Some nm \<Rightarrow>
                            snd (handleVideoClick2 e s) = None \<and>
                            (case findLayout nm (layouts s) of
                               None \<Rightarrow>
                                 list_all (\<lambda>l. toLowerCase (name2 l) \<noteq> toLowerCase nm) (layouts s) \<and>
                                 fst (handleVideoClick2 e s)
                                   = addLog2 (LogLayoutNotFound nm)
                                       (addLog2 (LogClickedRegion (source_type (regions s ! j))
                                                   (source_idx (regions s ! j))) s)
                             | Some l \<Rightarrow>
                                 l \<in> set (layouts s) \<and> toLowerCase (name2 l) = toLowerCase nm \<and>
                                 selectedLayout (fst (handleVideoClick2 e s)) = name2 l))))"
    unfolding box prod.case by blast
  show "(fst (handleVideoClick2 e s))\<lparr>selectedLayout := selectedLayout s, playerLogs2 := playerLogs2 s\<rparr> = s"
    by (simp add: handleVideoClick2_def addLog2_def Let_def split: option.splits prod.splits)
qed

theorem click_proposes_layout_of_hit_region_witness:
  "displayBox (1280 / 720) 960 720 = (960, 540, 0, 90)
   \<and> firstHit (100, 100) 0 [backgroundRegion, wideRegion] = Some 1
   \<and> firstHit (100, - 80) 0 [backgroundRegion, wideRegion] = None
   \<and> selectedLayout (fst (handleVideoClick2 letterboxClick (exampleSession [backgroundRegion, wideRegion]))) = ''Wide''
   \<and> snd (handleVideoClick2 letterboxClick (exampleSession [backgroundRegion, wideRegion])) = None
   \<and> handleVideoClick2 barClick (exampleSession [backgroundRegion, wideRegion])
       = (exampleSession [backgroundRegion, wideRegion], None)
   \<and> (fst (handleVideoClick2 letterboxClick (exampleSession [backgroundRegion, wideRegion])))
        \<lparr>selectedLayout := ''main'', playerLogs2 := []\<rparr> = exampleSession [backgroundRegion, wideRegion]"
proof -
  let ?s = "exampleSession [backgroundRegion, wideRegion]"
  have rs: "regions ?s = [backgroundRegion, wideRegion]" "regions ?s \<noteq> []"
    "selectedLayout ?s = ''main''" "playerLogs2 ?s = []"
    by (simp_all add: exampleSession_def)
  have box: "displayBox (of_nat (videoWidth letterboxClick) / of_nat (videoHeight letterboxClick))
       (rectWidth letterboxClick) (rectHeight letterboxClick) = (960, 540, 0, 90)"
    "displayBox (of_nat (videoWidth barClick) / of_nat (videoHeight barClick))
       (rectWidth barClick) (rectHeight barClick) = (960, 540, 0, 90)"
    by (simp_all add: letterboxClick_def barClick_def displayBox_def)
  have pt: "((clientX letterboxClick - (rectLeft letterboxClick + 0)) / 960 * canvasWidth ?s,
             (clientY letterboxClick - (rectTop letterboxClick + 90)) / 540 * canvasHeight ?s) = (100, 100)"
    "((clientX barClick - (rectLeft barClick + 0)) / 960 * canvasWidth ?s,
             (clientY barClick - (rectTop barClick + 90)) / 540 * canvasHeight ?s) = (100, - 80)"
    by (simp_all add: letterboxClick_def barClick_def exampleSession_def)
  note t1 = click_proposes_layout_of_hit_region
      [OF letterbox_guards(1) letterbox_guards(2-7) rs(2), unfolded box prod.case pt rs(1)]
  note t2 = click_proposes_layout_of_hit_region
      [OF letterbox_guards(1) letterbox_guards(8-13) rs(2), unfolded box prod.case pt rs(1)]
  have hit: "selectedLayout (fst (handleVideoClick2 letterboxClick ?s)) = ''Wide''
      \<and> snd (handleVideoClick2 letterboxClick ?s) = None
      \<and> (fst (handleVideoClick2 letterboxClick ?s))\<lparr>selectedLayout := ''main'', playerLogs2 := []\<rparr> = ?s"
    using t1
    by (simp add: rs letterbox_facts toLayout2_def)
  have bar: "handleVideoClick2 barClick ?s = (?s, None)"
    using t2
    by (simp add: rs letterbox_facts)
  from hit bar letterbox_facts(1,3,4) show ?thesis by simp
qed

text \<open>
  The example of the claim, with the region alone on the canvas: the pointer maps to the
  canvas point (100, 100), which is in the region, and a layout \<open>Wide\<close> that is not the
  active one answers to the name \<open>wide\<close>; the region is the largest one, so it is left out
  and the click does nothing.
\<close>

theorem only_region_is_not_clickable:
  "mapToCanvas2 exampleClick 1920 1080 = Some (100, 100)
   \<and> inRegion (Some (100, 100)) wideRegion
   \<and> parent_layout_name wideRegion = Some ''wide''
   \<and> findLayout ''wide'' (layouts (exampleSession [wideRegion])) = Some (toLayout2 ''https://h/s/'' ''Wide'')
   \<and> handleVideoClick2 exampleClick (exampleSession [wideRegion]) = (exampleSession [wideRegion], None)"
  using example_click_facts by (simp add: wideRegion_def)

text \<open>
  Claim C10. With no layout or one layout the click handler returns at its first check:
  whatever the click, the state is unchanged, nothing is proposed and nothing is thrown
  (the handler of \<open>part_000\<close> has written its line to the console before).
\<close>

theorem click_with_fewer_than_two_layouts_is_noop:
  "(length (layouts s) \<le> 1 \<longrightarrow> handleVideoClick2 e s = (s, None))
   \<and> (length (layouts s0) \<le> 1 \<longrightarrow> handleVideoClick0 e s0 = ([''jejnqejne''], s0, None))"
  by (simp add: handleVideoClick2_def handleVideoClick0_def)

theorem click_with_fewer_than_two_layouts_is_noop_witness:
  "length (layouts singleLayoutSession) = 1 \<and> length (layouts singleLayoutSession0) = 1
   \<and> handleVideoClick2 exampleClick singleLayoutSession = (singleLayoutSession, None)
   \<and> handleVideoClick0 exampleClick singleLayoutSession0 = ([''jejnqejne''], singleLayoutSession0, None)"
  using click_with_fewer_than_two_layouts_is_noop [of singleLayoutSession exampleClick singleLayoutSession0] single_layout_facts
  by simp
section \<open>Properties of the stall watchdog\<close>

lemma stuck_facts:
  "refsPresent stuckVod" "\<not> paused stuckVod" "currentTime stuckVod = lastTimeUpdateRef idleWatchdog"
  "stallCountRef idleWatchdog = 0" "\<not> isLive stuckVod" "currentTime stuckVod = 50"
  by (simp_all add: stuckVod_def idleWatchdog_def)

text \<open>
  Claim C5, as the code has it. The watchdog samples every 1000 milliseconds. A sample
  that finds the position unchanged and the video not paused counts one miss; a sample
  that finds the video paused or the position changed sets the counter to 0 and clears
  the stalled flag; the notification that buffering has started sets the counter to 0,
  the one that it has ended does not. The third miss in a row raises the stalled flag,
  sets the counter to 0 and sets a timer of 3000 milliseconds that clears the flag. Its
  recovery is a seek to 2 seconds before the end of the seek range for live content, and
  only when that end is more than 10 seconds after the position (no seek otherwise), and
  a seek forward by 0.1 seconds for content that is not live.
\<close>

theorem watchdog_counts_and_recovers:
  "(refsPresent v \<and> \<not> paused v \<and> currentTime v = lastTimeUpdateRef w \<and> stallCountRef w + 1 < 3
      \<longrightarrow> stallCheck v w = (w\<lparr>stallCountRef := stallCountRef w + 1, lastPlaybackTime := currentTime v\<rparr>, []))
   \<and> (refsPresent v \<and> (paused v \<or> currentTime v \<noteq> lastTimeUpdateRef w)
      \<longrightarrow> stallCheck v w = (w\<lparr>stallCountRef := 0, playbackStalled := False,
             lastTimeUpdateRef := currentTime v, lastPlaybackTime := currentTime v\<rparr>, []))
   \<and> stallCountRef (onBuffering True w) = 0
   \<and> onBuffering False w = w
   \<and> (refsPresent v \<and> \<not> paused v \<and> currentTime v = lastTimeUpdateRef w \<and> stallCountRef w = 0
      \<longrightarrow> (case stallChecks [v, v, v] w of
            (w', es) \<Rightarrow>
              w' = w\<lparr>stallCountRef := 0, playbackStalled := True, lastPlaybackTime := currentTime v\<rparr>
              \<and> es = [LogStallDetected (currentTime v)] @ recovery v @ [SetTimeout 3000 ClearStalled]
              \<and> seeks es =
                  (if isLive v
                   then (if seekRangeEnd v > currentTime v + 10 then [seekRangeEnd v - 2] else [])
                   else [currentTime v + 1 / 10])
              \<and> \<not> playbackStalled (onTimeout ClearStalled w')))
   \<and> snd (setupStallDetection h w)
        = (case stallCheckIntervalRef w of None \<Rightarrow> [] | Some old \<Rightarrow> [ClearInterval old])
          @ [SetInterval h 1000 StallCheck]"
  by (auto simp: stallCheck_def onBuffering_def onTimeout_def setupStallDetection_def seeks_def
      recovery_def)

theorem watchdog_counts_and_recovers_witness:
  "stallCheck stuckVod idleWatchdog = (idleWatchdog\<lparr>stallCountRef := 1, lastPlaybackTime := 50\<rparr>, [])
   \<and> stallCheck movingVod (idleWatchdog\<lparr>stallCountRef := 2\<rparr>)
       = (idleWatchdog\<lparr>stallCountRef := 0, playbackStalled := False,
            lastTimeUpdateRef := 51, lastPlaybackTime := 51\<rparr>, [])
   \<and> seeks (snd (stallChecks [stuckVod, stuckVod, stuckVod] idleWatchdog)) = [50 + 1 / 10]
   \<and> stallCountRef (fst (stallChecks [stuckVod, stuckVod, stuckVod] idleWatchdog)) = 0
   \<and> playbackStalled (fst (stallChecks [stuckVod, stuckVod, stuckVod] idleWatchdog))"
proof -
  note t1 = watchdog_counts_and_recovers [of stuckVod idleWatchdog]
  note t2 = watchdog_counts_and_recovers [of movingVod "idleWatchdog\<lparr>stallCountRef := 2\<rparr>"]
  have h1: "refsPresent stuckVod \<and> \<not> paused stuckVod
      \<and> currentTime stuckVod = lastTimeUpdateRef idleWatchdog \<and> stallCountRef idleWatchdog + 1 < 3"
    by (simp add: stuck_facts)
  have h2: "refsPresent movingVod \<and> (paused movingVod
      \<or> currentTime movingVod \<noteq> lastTimeUpdateRef (idleWatchdog\<lparr>stallCountRef := 2\<rparr>))"
    by (simp add: movingVod_def idleWatchdog_def)
  have h3: "refsPresent stuckVod \<and> \<not> paused stuckVod
      \<and> currentTime stuckVod = lastTimeUpdateRef idleWatchdog \<and> stallCountRef idleWatchdog = 0"
    by (simp add: stuck_facts)
  have a: "stallCheck stuckVod idleWatchdog
      = (idleWatchdog\<lparr>stallCountRef := stallCountRef idleWatchdog + 1,
           lastPlaybackTime := currentTime stuckVod\<rparr>, [])"
    by (rule mp [OF t1 [THEN conjunct1] h1])
  have b: "stallCheck movingVod (idleWatchdog\<lparr>stallCountRef := 2\<rparr>)
      = ((idleWatchdog\<lparr>stallCountRef := 2\<rparr>)\<lparr>stallCountRef := 0, playbackStalled := False,
             lastTimeUpdateRef := currentTime movingVod, lastPlaybackTime := currentTime movingVod\<rparr>, [])"
    by (rule mp [OF t2 [THEN conjunct2, THEN conjunct1] h2])
  have c: "case stallChecks [stuckVod, stuckVod, stuckVod] idleWatchdog of
            (w', es) \<Rightarrow>
              w' = idleWatchdog\<lparr>stallCountRef := 0, playbackStalled := True,
                     lastPlaybackTime := currentTime stuckVod\<rparr>
              \<and> es = [LogStallDetected (currentTime stuckVod)] @ recovery stuckVod
                     @ [SetTimeout 3000 ClearStalled]
              \<and> seeks es =
                  (if isLive stuckVod
                   then (if seekRangeEnd stuckVod > currentTime stuckVod + 10
                         then [seekRangeEnd stuckVod - 2] else [])
                   else [currentTime stuckVod + 1 / 10])
              \<and> \<not> playbackStalled (onTimeout ClearStalled w')"
    by (rule mp [OF t1 [THEN conjunct2, THEN conjunct2, THEN conjunct2, THEN conjunct2,
            THEN conjunct1] h3])
  from a have "stallCheck stuckVod idleWatchdog
      = (idleWatchdog\<lparr>stallCountRef := 1, lastPlaybackTime := 50\<rparr>, [])"
    by (simp add: stuckVod_def idleWatchdog_def)
  moreover from b have "stallCheck movingVod (idleWatchdog\<lparr>stallCountRef := 2\<rparr>)
       = (idleWatchdog\<lparr>stallCountRef := 0, playbackStalled := False,
            lastTimeUpdateRef := 51, lastPlaybackTime := 51\<rparr>, [])"
    by (simp add: movingVod_def)
  moreover from c have "seeks (snd (stallChecks [stuckVod, stuckVod, stuckVod] idleWatchdog)) = [50 + 1 / 10]
     \<and> stallCountRef (fst (stallChecks [stuckVod, stuckVod, stuckVod] idleWatchdog)) = 0
     \<and> playbackStalled (fst (stallChecks [stuckVod, stuckVod, stuckVod] idleWatchdog))"
    by (cases "stallChecks [stuckVod, stuckVod, stuckVod] idleWatchdog")
      (simp add: stuckVod_def idleWatchdog_def)
  ultimately show ?thesis by blast
qed

text \<open>
  A live stream stuck at second 50 with a seek range that ends at second 55: the third
  miss raises the flag and resets the counter, and there is no recovery action. A
  notification that buffering has ended leaves a counter of 2 as it is.
\<close>

theorem live_stall_near_edge_has_no_recovery:
  "seeks (snd (stallChecks [stuckLive 55, stuckLive 55, stuckLive 55] idleWatchdog)) = []
   \<and> playbackStalled (fst (stallChecks [stuckLive 55, stuckLive 55, stuckLive 55] idleWatchdog))
   \<and> stallCountRef (fst (stallChecks [stuckLive 55, stuckLive 55, stuckLive 55] idleWatchdog)) = 0
   \<and> stallCountRef (onBuffering False (fst (stallChecks [stuckLive 55, stuckLive 55] idleWatchdog))) = 2"
  by (simp add: stallCheck_def stuckLive_def idleWatchdog_def recovery_def seeks_def onBuffering_def)
section \<open>Properties of the program selectors\<close>

subsection \<open>The manifest version\<close>

lemma clearSwitchTimeout_fields [simp]:
  "manifestVersionRef (clearSwitchTimeout s) = manifestVersionRef s"
  "isSwitching (clearSwitchTimeout s) = isSwitching s"
  "engineCalls (clearSwitchTimeout s) = engineCalls s"
  "selectedProgramLabel (clearSwitchTimeout s) = selectedProgramLabel s"
  "programs (clearSwitchTimeout s) = programs s"
  "isLoading (clearSwitchTimeout s) = isLoading s"
  "uiError (clearSwitchTimeout s) = uiError s"
  by (simp_all add: clearSwitchTimeout_def split: option.splits)

lemma addLog1_fields [simp]:
  "manifestVersionRef (addLog1 m s) = manifestVersionRef s"
  "isSwitching (addLog1 m s) = isSwitching s"
  "engineCalls (addLog1 m s) = engineCalls s"
  "selectedProgramLabel (addLog1 m s) = selectedProgramLabel s"
  "programs (addLog1 m s) = programs s"
  "isLoading (addLog1 m s) = isLoading s"
  "uiError (addLog1 m s) = uiError s"
  "timers (addLog1 m s) = timers s"
  "clock (addLog1 m s) = clock s"
  "switchTimeoutRef (addLog1 m s) = switchTimeoutRef s"
  "nextTimer (addLog1 m s) = nextTimer s"
  "hasPlayer (addLog1 m s) = hasPlayer s"
  "isPlayerReady (addLog1 m s) = isPlayerReady s"
  "abrEnabled (addLog1 m s) = abrEnabled s"
  "manifestUrlToLoad (addLog1 m s) = manifestUrlToLoad s"
  by (simp_all add: addLog1_def)

lemma switchEffect_version [simp]: "manifestVersionRef (switchEffect v s) = manifestVersionRef s"
  by (simp add: switchEffect_def Let_def callEngine_def setSwitchTimeout_def
      split: option.splits)

lemma foldl_addLog1_version [simp]:
  "manifestVersionRef (foldl (\<lambda>s t. addLog1 (f t) s) s ts) = manifestVersionRef s"
  by (induction ts arbitrary: s) simp_all

lemma foldl_timeout_version [simp]:
  "manifestVersionRef (foldl (\<lambda>s t. onSwitchTimeout s) s ts) = manifestVersionRef s"
  by (induction ts arbitrary: s) (simp_all add: onSwitchTimeout_def)










subsection \<open>One switch at a time\<close>

lemma select_while_switching:
  "isSwitching s \<Longrightarrow> step v (SelectProgram x) s = addLog1 (LogUserTried x True (isLoading s)) s"
  by (simp add: step_def handleProgramChange_def)

lemma switchEffect_while_switching:
  "isSwitching s \<Longrightarrow>
     switchEffect v s =
       (if selectedProgramLabel s = [] \<or> \<not> hasPlayer s \<or> programs s = [] \<or> \<not> isPlayerReady s then s
        else addLog1 (LogSwitchInProgress (selectedProgramLabel s)) s)"
  by (simp add: switchEffect_def)

lemma dispatches_addLog1 [simp]: "dispatches (addLog1 m s) = dispatches s"
  by (simp add: dispatches_def)

lemma switchEffect_dispatch:
  assumes "\<not> isSwitching s" "isSwitching (switchEffect v s)"
  shows "\<exists>k. engineCalls (switchEffect v s) = engineCalls s @ [ConfigureAbr False, SelectVariantTrack k True]
           \<and> timers (switchEffect v s) = timers s @ [(nextTimer s, clock s + 5000)]
           \<and> clock (switchEffect v s) = clock s
           \<and> selectedProgramLabel (switchEffect v s) = selectedProgramLabel s"
  using assms
  by (auto simp: switchEffect_def Let_def callEngine_def setSwitchTimeout_def clearSwitchTimeout_def
      split: option.splits if_splits)

lemma select_dispatch:
  assumes "\<not> isSwitching s" "isSwitching (step v (SelectProgram a) s)"
  shows "dispatches (step v (SelectProgram a) s) = dispatches s + 1
         \<and> selectedProgramLabel (step v (SelectProgram a) s) = a"
proof -
  let ?s1 = "handleProgramChange a s"
  from assms have l: "\<not> isLoading s"
    by (auto simp: step_def handleProgramChange_def)
  with assms(1) have s1: "?s1 = (addLog1 (LogUserSelected a) s)\<lparr>selectedProgramLabel := a\<rparr>"
    by (simp add: handleProgramChange_def)
  then have ns: "\<not> isSwitching ?s1" using assms(1) by simp
  from assms(2) ns have ch: "selectedProgramLabel ?s1 \<noteq> selectedProgramLabel s"
    by (auto simp: step_def Let_def)
  then have st: "step v (SelectProgram a) s = switchEffect v ?s1"
    by (simp add: step_def Let_def)
  with assms(2) have "isSwitching (switchEffect v ?s1)" by simp
  from switchEffect_dispatch [OF ns this] obtain k where
    "engineCalls (switchEffect v ?s1) = engineCalls ?s1 @ [ConfigureAbr False, SelectVariantTrack k True]"
    "selectedProgramLabel (switchEffect v ?s1) = selectedProgramLabel ?s1" by blast
  then show ?thesis
    unfolding st by (simp add: dispatches_def s1)
qed

lemma selectLayout_while_busy:
  "isSwitchingA s \<or> isLoadingA s \<Longrightarrow> selectLayout t x s = addLogA (LogUserTriedA x) s"
  by (auto simp: selectLayout_def handleLayoutChange_def addLogA_def)

lemma selectLayout_dispatch:
  assumes "\<not> isSwitchingA s" "isSwitchingA (selectLayout t a s)"
  shows "loadsA (selectLayout t a s) = loadsA s + 1"
  using assms
  by (auto simp: selectLayout_def handleLayoutChange_def loadLayoutEffect_def Let_def addLogA_def
      loadsA_def split: option.splits if_splits)

lemma rapid_fire_facts:
  "\<not> isSwitching playingSession"
  "isSwitching (step silentEngine (SelectProgram ''wide'') playingSession)"
  "dispatches playingSession = 0"
  by (simp_all add: playingSession_def silentEngine_def twoTracks_def programsOf_def step_def
      handleProgramChange_def switchEffect_def Let_def addLog1_def callEngine_def
      setSwitchTimeout_def dispatches_def)

lemma rapid_fire_loading:
  "isLoading (step silentEngine (SelectProgram ''wide'') playingSession) = False"
  by (simp add: playingSession_def silentEngine_def twoTracks_def programsOf_def step_def
      handleProgramChange_def switchEffect_def Let_def addLog1_def callEngine_def
      setSwitchTimeout_def)

lemma rapid_fire_facts_A:
  "\<not> isSwitchingA playingSessionA"
  "isSwitchingA (selectLayout 12 ''B'' playingSessionA)"
  "loadsA playingSessionA = 1"
  by (simp_all add: playingSessionA_def selectLayout_def handleLayoutChange_def loadLayoutEffect_def
      Let_def addLogA_def loadsA_def toLayout_def pushTo_def freshLayout_def exampleStream_def)

text \<open>
  Claim C2. While \<open>isSwitching\<close> is set, a request to select a program is logged and
  nothing else: the selection stays, nothing is handed to the player and nothing is
  queued; and the switch effect, should it run, hands nothing to the player and sets no
  timer. So of two requests in a row, the first one having switched (the flag is set
  after it), exactly one reaches the player, and the selection is that of the first.
  The same holds for the layout selection of \<open>src/App.js\<close>, where the handler also
  refuses while a manifest loads and a switch is a load of the layout's master URL.
\<close>

theorem second_request_is_ignored_while_switching:
  "(isSwitching s \<longrightarrow>
      step v (SelectProgram x) s = addLog1 (LogUserTried x True (isLoading s)) s
      \<and> engineCalls (switchEffect v s) = engineCalls s
      \<and> timers (switchEffect v s) = timers s
      \<and> isSwitching (switchEffect v s))
   \<and> (\<not> isSwitching s \<and> isSwitching (step v (SelectProgram a) s) \<longrightarrow>
        dispatches (step v (SelectProgram a) s) = dispatches s + 1
        \<and> dispatches (step v' (SelectProgram b) (step v (SelectProgram a) s)) = dispatches s + 1
        \<and> selectedProgramLabel (step v' (SelectProgram b) (step v (SelectProgram a) s)) = a)
   \<and> (isSwitchingA sa \<or> isLoadingA sa \<longrightarrow> selectLayout t x sa = addLogA (LogUserTriedA x) sa)
   \<and> (\<not> isSwitchingA sa \<and> isSwitchingA (selectLayout t a sa) \<longrightarrow>
        loadsA (selectLayout t a sa) = loadsA sa + 1
        \<and> loadsA (selectLayout t' b (selectLayout t a sa)) = loadsA sa + 1)"
proof (intro conjI impI)
  assume sw: "isSwitching s"
  then show "step v (SelectProgram x) s = addLog1 (LogUserTried x True (isLoading s)) s"
    by (rule select_while_switching)
  from sw show "engineCalls (switchEffect v s) = engineCalls s"
    and "timers (switchEffect v s) = timers s"
    and "isSwitching (switchEffect v s)"
    by (simp_all add: switchEffect_while_switching)
next
  assume a: "\<not> isSwitching s \<and> isSwitching (step v (SelectProgram a) s)"
  then have d: "dispatches (step v (SelectProgram a) s) = dispatches s + 1"
    and l: "selectedProgramLabel (step v (SelectProgram a) s) = a"
    using select_dispatch by blast+
  from d show "dispatches (step v (SelectProgram a) s) = dispatches s + 1" .
  from a have "step v' (SelectProgram b) (step v (SelectProgram a) s)
      = addLog1 (LogUserTried b True (isLoading (step v (SelectProgram a) s))) (step v (SelectProgram a) s)"
    by (simp add: select_while_switching)
  with d l show "dispatches (step v' (SelectProgram b) (step v (SelectProgram a) s)) = dispatches s + 1"
    and "selectedProgramLabel (step v' (SelectProgram b) (step v (SelectProgram a) s)) = a"
    by simp_all
next
  assume "isSwitchingA sa \<or> isLoadingA sa"
  then show "selectLayout t x sa = addLogA (LogUserTriedA x) sa"
    by (rule selectLayout_while_busy)
next
  assume a: "\<not> isSwitchingA sa \<and> isSwitchingA (selectLayout t a sa)"
  then have d: "loadsA (selectLayout t a sa) = loadsA sa + 1"
    using selectLayout_dispatch by blast
  from d show "loadsA (selectLayout t a sa) = loadsA sa + 1" .
  from a have "selectLayout t' b (selectLayout t a sa) = addLogA (LogUserTriedA b) (selectLayout t a sa)"
    by (simp add: selectLayout_while_busy)
  with d show "loadsA (selectLayout t' b (selectLayout t a sa)) = loadsA sa + 1"
    by (simp add: loadsA_def addLogA_def)
qed

theorem second_request_is_ignored_while_switching_witness:
  "\<not> isSwitching playingSession
   \<and> isSwitching (step silentEngine (SelectProgram ''wide'') playingSession)
   \<and> step silentEngine (SelectProgram ''side'') (step silentEngine (SelectProgram ''wide'') playingSession)
       = addLog1 (LogUserTried ''side'' True False)
           (step silentEngine (SelectProgram ''wide'') playingSession)
   \<and> dispatches (step silentEngine (SelectProgram ''side'')
        (step silentEngine (SelectProgram ''wide'') playingSession)) = 1
   \<and> selectedProgramLabel (step silentEngine (SelectProgram ''side'')
        (step silentEngine (SelectProgram ''wide'') playingSession)) = ''wide''
   \<and> isSwitchingA (selectLayout 12 ''B'' playingSessionA)
   \<and> selectLayout 13 ''a'' (selectLayout 12 ''B'' playingSessionA)
       = addLogA (LogUserTriedA ''a'') (selectLayout 12 ''B'' playingSessionA)
   \<and> loadsA (selectLayout 13 ''a'' (selectLayout 12 ''B'' playingSessionA)) = 2"
  using second_request_is_ignored_while_switching
      [where s = playingSession and v = silentEngine and a = "''wide''"
        and v' = silentEngine and b = "''side''"]
    second_request_is_ignored_while_switching
      [where sa = playingSessionA and t = 12 and a = "''B''" and t' = 13 and b = "''a''"]
    second_request_is_ignored_while_switching
      [where s = "step silentEngine (SelectProgram ''wide'') playingSession" and v = silentEngine
        and x = "''side''" and sa = "selectLayout 12 ''B'' playingSessionA" and t = 13]
    rapid_fire_facts rapid_fire_facts_A rapid_fire_loading
  by simp

subsection \<open>The timeout of a switch\<close>

lemma foldl_timeout_resets:
  "ts \<noteq> [] \<Longrightarrow> \<not> isSwitching (foldl (\<lambda>s t. onSwitchTimeout s) s ts)"
  by (induction ts arbitrary: s rule: rev_induct) (simp_all add: onSwitchTimeout_def)

lemma advance_resets:
  assumes "(h, d) \<in> set (timers s)" "d \<le> clock s + dt"
  shows "\<not> isSwitching (advance dt s)"
proof -
  from assms have "(h, d) \<in> set (filter (\<lambda>t. snd t \<le> clock s + dt) (timers s))" by simp
  then have "filter (\<lambda>t. snd t \<le> clock s + dt) (timers s) \<noteq> []" by (metis empty_iff empty_set)
  then show ?thesis unfolding advance_def by (rule foldl_timeout_resets)
qed

lemma switch_timeout_resets:
  assumes "\<not> isSwitching s" "isSwitching (switchEffect v s)" "5000 \<le> dt"
  shows "\<not> isSwitching (advance dt (switchEffect v s))"
proof -
  from switchEffect_dispatch [OF assms(1,2)]
  have t: "timers (switchEffect v s) = timers s @ [(nextTimer s, clock s + 5000)]"
    and c: "clock (switchEffect v s) = clock s" by blast+
  show ?thesis
  proof (rule advance_resets)
    show "(nextTimer s, clock s + 5000) \<in> set (timers (switchEffect v s))" by (simp add: t)
    show "clock s + 5000 \<le> clock (switchEffect v s) + dt" using assms(3) by (simp add: c)
  qed
qed

lemma stale_timeout_keeps:
  "list_all (\<lambda>t. \<not> snd t) ts \<Longrightarrow> foldl (\<lambda>s t. onSwitchTimeout0 (snd t) s) s ts = s"
  by (induction ts arbitrary: s) (simp_all add: onSwitchTimeout0_def)

lemma advance0_stale:
  assumes "list_all (\<lambda>t. \<not> snd t) (timers0 s)"
  shows "isSwitching0 (advance0 dt s) = isSwitching0 s"
proof -
  from assms have "list_all (\<lambda>t. \<not> snd t) (filter (\<lambda>t. fst t \<le> clock0 s + dt) (timers0 s))"
    by (simp add: list_all_iff)
  then show ?thesis by (simp add: advance0_def stale_timeout_keeps)
qed

lemma switchEffect0_captures:
  "list_all (\<lambda>t. \<not> snd t) (timers0 s) \<Longrightarrow> list_all (\<lambda>t. \<not> snd t) (timers0 (switchEffect0 v s))"
  by (auto simp: switchEffect0_def Let_def addLog0_def split: option.splits)

lemma stuck_switch_facts:
  "engineCalls0 (selectProgram0 silentEngine ''wide'' playingSession0)
     = [Load ''https://h/s/master.m3u8'', SelectVariantTrack 2 True]"
  "isSwitching0 (selectProgram0 silentEngine ''wide'' playingSession0)"
  "timers0 (selectProgram0 silentEngine ''wide'' playingSession0) = [(5000, False)]"
  by (simp_all add: selectProgram0_def handleProgramChange0_def switchEffect0_def playingSession0_def
      silentEngine_def twoTracks_def addLog0_def Let_def)

text \<open>
  Claim C4. In \<open>part_001\<close> the timer set at a switch resets the flag when it runs, 5000
  milliseconds later (\<open>switch_timeout_resets\<close>). In the first program selector of
  \<open>part_000\<close> the callback of the timer tests the \<open>isSwitching\<close> of the render in which
  the effect ran, which is false since the effect returns at once when it is true, so
  the callback never resets the flag: after a switch that the player does not confirm
  the flag is set, and stays set however long the session waits.
\<close>

theorem part000_switch_timeout_never_resets:
  "engineCalls0 (selectProgram0 silentEngine ''wide'' playingSession0)
     = [Load ''https://h/s/master.m3u8'', SelectVariantTrack 2 True]
   \<and> isSwitching0 (selectProgram0 silentEngine ''wide'' playingSession0)
   \<and> timers0 (selectProgram0 silentEngine ''wide'' playingSession0) = [(5000, False)]
   \<and> isSwitching0 (advance0 dt (selectProgram0 silentEngine ''wide'' playingSession0))"
proof -
  have "isSwitching0 (advance0 dt (selectProgram0 silentEngine ''wide'' playingSession0))
      = isSwitching0 (selectProgram0 silentEngine ''wide'' playingSession0)"
    by (rule advance0_stale) (simp add: stuck_switch_facts)
  then show ?thesis by (simp add: stuck_switch_facts)
qed

end
